theory Spec2Isabelle
  imports Complex_Main "HOL-Library.Word"
begin

section \<open>VelodyneCapture: packet processing and frame queue\<close>

text \<open>
  A shallow embedding of \<^verbatim>\<open>3rdparty/VelodyneCapture/VelodyneCapture_cloud.h\<close>.

  Conventions of the embedding.
  \<^item> \<^verbatim>\<open>uint8_t\<close>, \<^verbatim>\<open>uint16_t\<close>, \<^verbatim>\<open>uint32_t\<close> are words; C++ promotes them to
    \<^verbatim>\<open>int\<close> before arithmetic, which \<open>uint\<close> and \<open>unat\<close> write out.
  \<^item> \<^verbatim>\<open>double\<close> and \<^verbatim>\<open>float\<close> are \<open>real\<close>. For azimuths this is exact: every value
    is a 16-bit integer, plus possibly a half-integer below \<open>2 ^ 17\<close>, minus possibly
    36000, and such numbers and their comparisons are exact in binary64. For point
    coordinates and the cos/sin tables it is an idealisation (no rounding).
  \<^item> Undefined behaviour of the source (\<^verbatim>\<open>%\<close> by zero, \<^verbatim>\<open>operator[]\<close> beyond the
    size of a \<^verbatim>\<open>std::vector\<close>), a failed \<^verbatim>\<open>assert\<close> and an exception thrown
    by \<^verbatim>\<open>std::stoll\<close> are values of type \<open>error\<close>.
  \<^item> Fixed-size C arrays (\<^verbatim>\<open>firingData[12]\<close>, \<^verbatim>\<open>laserReturns[32]\<close>, the 4x4 matrix) are
    functions of the index; the loops only ever read indices inside the array.
\<close>

datatype error =
    Division_by_zero
  | Vector_index_out_of_range
  | Assertion_failed
  | Stoll_invalid_argument
  | Stoll_out_of_range

subsection \<open>Data\<close>

text \<open>\<^verbatim>\<open>#define EPSILON 0.001\<close>\<close>

definition EPSILON :: real where
  "EPSILON = 1 / 1000"

definition LASER_PER_FIRING :: nat where
  "LASER_PER_FIRING = 32"

definition FIRING_PER_PKT :: nat where
  "FIRING_PER_PKT = 12"

record LaserReturn =
  distance :: "16 word"
  intensity :: "8 word"

record FiringData =
  blockIdentifier :: "16 word"
  rotationalPosition :: "16 word"
  laserReturns :: "nat \<Rightarrow> LaserReturn"

record DataPacket =
  firingData :: "nat \<Rightarrow> FiringData"
  gpsTimestamp :: "32 word"
  mode :: "8 word"
  sensorType :: "8 word"

text \<open>The point type \<^verbatim>\<open>PointT\<close> (a template parameter); only x, y, z are written.\<close>

record PointT =
  p_x :: real
  p_y :: real
  p_z :: real

text \<open>
  \<^verbatim>\<open>pcl::PointCloud<PointT>\<close> is an external container; these are the fields the
  source touches. A freshly constructed cloud is empty with all of them zero.
  \<^verbatim>\<open>header.stamp\<close> is a \<^verbatim>\<open>uint64_t\<close>, \<open>width\<close> and \<open>height\<close> are \<^verbatim>\<open>uint32_t\<close>.
\<close>

record PointCloudT =
  stamp :: "64 word"
  width :: "32 word"
  height :: "32 word"
  points :: "PointT list"

definition new_PointCloudT :: PointCloudT where
  "new_PointCloudT = \<lparr>stamp = 0, width = 0, height = 0, points = []\<rparr>"

text \<open>
  The members of the \<^verbatim>\<open>VelodyneCapture\<close> object that \<^verbatim>\<open>capturePCAP\<close> reads.
  \<^verbatim>\<open>transformMatrixPtr\<close> is \<open>None\<close> for \<^verbatim>\<open>nullptr\<close>.
\<close>

record VelodyneCapture =
  MAX_NUM_LASERS :: int
  lut :: "real list"
  lut_cos :: "real list"
  lut_sin :: "real list"
  transformMatrixPtr :: "(nat \<Rightarrow> nat \<Rightarrow> real) option"

subsection \<open>Calibration tables: the constructors of the two sensor classes\<close>

text \<open>
  The base-class constructor leaves the three vectors empty (their default
  construction) and \<^verbatim>\<open>MAX_NUM_LASERS\<close> uninitialised, here a parameter \<open>n0\<close>.
\<close>

definition VelodyneCapture_ctor :: "int \<Rightarrow> VelodyneCapture" where
  "VelodyneCapture_ctor n0 =
     \<lparr>MAX_NUM_LASERS = n0, lut = [], lut_cos = [], lut_sin = [], transformMatrixPtr = None\<rparr>"

definition VLP16_lut :: "real list" where
  "VLP16_lut = [-15, 1, -13, 3, -11, 5, -9, 7, -7, 9, -5, 11, -3, 13, -1, 15]"

definition HDL32E_lut :: "real list" where
  "HDL32E_lut =
     [-30.67, -9.3299999, -29.33, -8.0, -28, -6.6700001, -26.67, -5.3299999,
      -25.33, -4.0, -24.0, -2.6700001, -22.67, -1.33, -21.33, 0.0,
      -20.0, 1.33, -18.67, 2.6700001, -17.33, 4.0, -16, 5.3299999,
      -14.67, 6.6700001, -13.33, 8.0, -12.0, 9.3299999, -10.67, 10.67]"

text \<open>
  \<^verbatim>\<open>VLP16Capture::initialize\<close>: \<^verbatim>\<open>std::transform\<close> overwrites the class's own
  \<^verbatim>\<open>lut_cos\<close> and \<^verbatim>\<open>lut_sin\<close> (16 entries each), then all four members are copied into
  the base class.
\<close>

definition VLP16Capture_initialize :: "VelodyneCapture \<Rightarrow> VelodyneCapture" where
  "VLP16Capture_initialize b =
     b\<lparr>MAX_NUM_LASERS := 16,
       lut := VLP16_lut,
       lut_cos := map (\<lambda>a. cos (a * pi / 180)) VLP16_lut,
       lut_sin := map (\<lambda>a. sin (a * pi / 180)) VLP16_lut\<rparr>"

text \<open>
  \<^verbatim>\<open>HDL32ECapture::initialize\<close>: only \<^verbatim>\<open>MAX_NUM_LASERS\<close> and \<^verbatim>\<open>lut\<close> are assigned.
\<close>

definition HDL32ECapture_initialize :: "VelodyneCapture \<Rightarrow> VelodyneCapture" where
  "HDL32ECapture_initialize b = b\<lparr>MAX_NUM_LASERS := 32, lut := HDL32E_lut\<rparr>"

definition VLP16Capture :: "int \<Rightarrow> VelodyneCapture" where
  "VLP16Capture n0 = VLP16Capture_initialize (VelodyneCapture_ctor n0)"

definition HDL32ECapture :: "int \<Rightarrow> VelodyneCapture" where
  "HDL32ECapture n0 = HDL32ECapture_initialize (VelodyneCapture_ctor n0)"

text \<open>
  \<^verbatim>\<open>open( filename, transformMatrix )\<close> stores a copy of the matrix before the
  capture thread starts.
\<close>

definition set_transform :: "(nat \<Rightarrow> nat \<Rightarrow> real) \<Rightarrow> VelodyneCapture \<Rightarrow> VelodyneCapture" where
  "set_transform m c = c\<lparr>transformMatrixPtr := Some m\<rparr>"

subsection \<open>The Unix time of a packet\<close>

text \<open>
  \<^verbatim>\<open>ss << tv_sec << std::setw( 6 ) << std::left << std::setfill( '0' ) << tv_usec;\<close>
  \<^verbatim>\<open>unixtime = std::stoll( ss.str() );\<close>

  \<open>show_int\<close> is the stream's decimal rendering of a signed integer. The field width 6
  applies to \<^verbatim>\<open>tv_usec\<close> only; with \<^verbatim>\<open>std::left\<close> the fill characters go after the
  digits.
\<close>

definition digit_char :: "nat \<Rightarrow> char" where
  "digit_char d = ''0123456789'' ! (d mod 10)"

function show_nat :: "nat \<Rightarrow> string" where
  "show_nat n = (if n < 10 then [digit_char n] else show_nat (n div 10) @ [digit_char (n mod 10)])"
  by pat_completeness auto
termination
  by (relation "measure id") auto

declare show_nat.simps [simp del]

definition show_int :: "int \<Rightarrow> string" where
  "show_int i = (if i < 0 then CHR ''-'' # show_nat (nat (- i)) else show_nat (nat i))"

definition setw_left :: "nat \<Rightarrow> char \<Rightarrow> string \<Rightarrow> string" where
  "setw_left w fill s = s @ replicate (w - length s) fill"

definition is_digit :: "char \<Rightarrow> bool" where
  "is_digit ch = (ch \<in> set ''0123456789'')"

definition digit_val :: "char \<Rightarrow> nat" where
  "digit_val ch = of_char ch - 48"

definition is_space :: "char \<Rightarrow> bool" where
  "is_space ch = (of_char ch \<in> {32, 9, 10, 11, 12, 13 :: nat})"

text \<open>
  \<^verbatim>\<open>std::stoll\<close> (base 10): skip white space, read an optional sign, then the longest
  run of digits; no digit at all throws \<^verbatim>\<open>std::invalid_argument\<close>, a value outside
  \<^verbatim>\<open>long long\<close> throws \<^verbatim>\<open>std::out_of_range\<close>. Characters after the digits are ignored.
\<close>

definition digits_value :: "string \<Rightarrow> nat" where
  "digits_value ds = foldl (\<lambda>acc ch. 10 * acc + digit_val ch) 0 ds"

definition stoll :: "string \<Rightarrow> error + int" where
  "stoll s =
     (let s1 = dropWhile is_space s;
          neg = (s1 \<noteq> [] \<and> hd s1 = CHR ''-'');
          s2 = (if s1 \<noteq> [] \<and> (hd s1 = CHR ''-'' \<or> hd s1 = CHR ''+'') then tl s1 else s1);
          ds = takeWhile is_digit s2;
          v = (if neg then - int (digits_value ds) else int (digits_value ds))
      in if ds = [] then Inl Stoll_invalid_argument
         else if v < - (2 ^ 63) \<or> 2 ^ 63 \<le> v then Inl Stoll_out_of_range
         else Inr v)"

definition unixtime_of :: "int \<Rightarrow> int \<Rightarrow> error + int" where
  "unixtime_of tv_sec tv_usec =
     stoll (show_int tv_sec @ setw_left 6 (CHR ''0'') (show_int tv_usec))"

subsection \<open>Processing one packet\<close>

text \<open>The capture thread's local state, together with the queue it pushes to.\<close>

record capture_state =
  last_azimuth :: real
  cloud :: PointCloudT
  queue :: "PointCloudT list"

text \<open>
  \<^verbatim>\<open>interpolated\<close>: the two rotational positions are promoted to \<^verbatim>\<open>int\<close>, so nothing
  wraps, and the division is by the double \<^verbatim>\<open>2.0\<close>.
\<close>

definition interpolated_azimuth :: "DataPacket \<Rightarrow> real" where
  "interpolated_azimuth packet =
     (let r0 = uint (rotationalPosition (firingData packet 0));
          r1 = uint (rotationalPosition (firingData packet 1))
      in if r1 < r0 then real_of_int ((r1 + 36000) - r0) / 2
         else real_of_int (r1 - r0) / 2)"

text \<open>C++ \<^verbatim>\<open>%\<close> truncates towards zero; the divisor is checked for zero by the caller.\<close>

definition c_rem :: "int \<Rightarrow> int \<Rightarrow> int" where
  "c_rem a b = sgn a * (\<bar>a\<bar> mod \<bar>b\<bar>)"

text \<open>The azimuth of a laser slot: lines 325 to 339 of the source.\<close>

definition slot_azimuth :: "VelodyneCapture \<Rightarrow> real \<Rightarrow> FiringData \<Rightarrow> nat \<Rightarrow> real" where
  "slot_azimuth c interpolated firing_data laser_index =
     (let azimuth = real (unat (rotationalPosition firing_data));
          azimuth = (if MAX_NUM_LASERS c \<le> int laser_index then azimuth + interpolated else azimuth)
      in if 36000 \<le> azimuth then azimuth - 36000 else azimuth)"

text \<open>
  Completing a rotation (lines 343 to 350): the cloud is stamped (the \<^verbatim>\<open>long long\<close>
  is converted to the unsigned 64-bit field), its width is the point count cast to
  \<^verbatim>\<open>uint32_t\<close>, it is pushed to the back of the queue, and a new cloud replaces it. The \<^verbatim>\<open>MAX_QUEUE_SIZE\<close> wait that may follow only sleeps.
\<close>

definition push_rotation :: "int \<Rightarrow> capture_state \<Rightarrow> capture_state" where
  "push_rotation unixtime st =
     st\<lparr>queue := queue st @ [(cloud st)\<lparr>stamp := of_int unixtime,
                                        width := of_nat (length (points (cloud st))),
                                        height := 1\<rparr>],
        cloud := new_PointCloudT\<rparr>"

definition M_PI_18000 :: real where
  "M_PI_18000 = pi / 18000"

definition laser_point :: "real \<Rightarrow> real \<Rightarrow> LaserReturn \<Rightarrow> real \<Rightarrow> PointT" where
  "laser_point vcos vsin ret azimuth =
     \<lparr>p_x = (real (unat (distance ret)) * 2 * vcos) * sin (azimuth * M_PI_18000),
      p_y = (real (unat (distance ret)) * 2 * vcos) * cos (azimuth * M_PI_18000),
      p_z = real (unat (distance ret)) * 2 * vsin\<rparr>"

definition transform_point :: "(nat \<Rightarrow> nat \<Rightarrow> real) \<Rightarrow> PointT \<Rightarrow> PointT" where
  "transform_point matrix p1 =
     \<lparr>p_x = matrix 0 0 * p_x p1 + matrix 0 1 * p_y p1 + matrix 0 2 * p_z p1 + matrix 0 3,
      p_y = matrix 1 0 * p_x p1 + matrix 1 1 * p_y p1 + matrix 1 2 * p_z p1 + matrix 1 3,
      p_z = matrix 2 0 * p_x p1 + matrix 2 1 * p_y p1 + matrix 2 2 * p_z p1 + matrix 2 3\<rparr>"

text \<open>
  The point of a return (lines 373 to 383): \<^verbatim>\<open>p1\<close> from the two table entries of
  the channel, replaced by its image under the matrix when one is set.
\<close>

definition reconstruct_point :: "VelodyneCapture \<Rightarrow> nat \<Rightarrow> LaserReturn \<Rightarrow> real \<Rightarrow> PointT" where
  "reconstruct_point c laser_index_modulus ret azimuth =
     (let p1 = laser_point (lut_cos c ! laser_index_modulus)
                 (lut_sin c ! laser_index_modulus) ret azimuth
      in case transformMatrixPtr c of None \<Rightarrow> p1
         | Some matrix \<Rightarrow> transform_point matrix p1)"

text \<open>
  The rotation test of a slot (lines 341 to 356): when the azimuth has gone down, the
  rotation in progress is complete.
\<close>

definition rotation_test :: "int \<Rightarrow> real \<Rightarrow> capture_state \<Rightarrow> capture_state" where
  "rotation_test unixtime azimuth st =
     (if last_azimuth st > azimuth then push_rotation unixtime st else st)"

text \<open>
  The body of the inner loop, for one \<^verbatim>\<open>laser_index\<close> (lines 324 to 388).
  \<^verbatim>\<open>continue\<close> is the early \<open>Inr\<close>. The two table reads are checked against the
  sizes of the vectors before \<open>reconstruct_point\<close> makes them.
\<close>

definition process_laser ::
  "VelodyneCapture \<Rightarrow> int \<Rightarrow> real \<Rightarrow> FiringData \<Rightarrow> nat \<Rightarrow> capture_state \<Rightarrow> error + capture_state"
where
  "process_laser c unixtime interpolated firing_data laser_index st =
     (if MAX_NUM_LASERS c = 0 then Inl Division_by_zero
      else
        let laser_index_modulus = nat (c_rem (int laser_index) (MAX_NUM_LASERS c));
            azimuth = slot_azimuth c interpolated firing_data laser_index;
            st1 = rotation_test unixtime azimuth st;
            ret = laserReturns firing_data laser_index_modulus
        in if real (unat (distance ret)) < EPSILON then Inr st1
           else if length (lut_cos c) \<le> laser_index_modulus
                   \<or> length (lut_sin c) \<le> laser_index_modulus
             then Inl Vector_index_out_of_range
           else
             Inr (st1\<lparr>cloud := (cloud st1)\<lparr>points := points (cloud st1)
                                    @ [reconstruct_point c laser_index_modulus ret azimuth]\<rparr>,
                     last_azimuth := azimuth\<rparr>))"

text \<open>A \<^verbatim>\<open>for\<close> loop over a list of indices whose body may fail.\<close>

fun for_each :: "('a \<Rightarrow> 's \<Rightarrow> error + 's) \<Rightarrow> 'a list \<Rightarrow> 's \<Rightarrow> error + 's" where
  "for_each body [] s = Inr s"
| "for_each body (i # is) s =
     (case body i s of Inl e \<Rightarrow> Inl e | Inr s' \<Rightarrow> for_each body is s')"

definition process_firing ::
  "VelodyneCapture \<Rightarrow> int \<Rightarrow> real \<Rightarrow> FiringData \<Rightarrow> capture_state \<Rightarrow> error + capture_state"
where
  "process_firing c unixtime interpolated firing_data st =
     for_each (process_laser c unixtime interpolated firing_data) [0..<LASER_PER_FIRING] st"

definition process_firings ::
  "VelodyneCapture \<Rightarrow> int \<Rightarrow> DataPacket \<Rightarrow> capture_state \<Rightarrow> error + capture_state"
where
  "process_firings c unixtime packet st =
     for_each (\<lambda>firing_index. process_firing c unixtime (interpolated_azimuth packet)
                                (firingData packet firing_index))
       [0..<FIRING_PER_PKT] st"

text \<open>
  What \<^verbatim>\<open>pcap_next_ex\<close> hands to one iteration of the capture loop, with the value
  of the atomic \<^verbatim>\<open>run\<close> flag that the \<^verbatim>\<open>while\<close> test of this iteration reads.
  \<^verbatim>\<open>payload\<close> is the \<^verbatim>\<open>DataPacket\<close> overlaid on \<^verbatim>\<open>data + 42\<close>.
\<close>

record pcap_pkthdr =
  tv_sec :: int
  tv_usec :: int
  len :: "32 word"

record capture_input =
  run :: bool
  ret :: int
  header :: pcap_pkthdr
  payload :: DataPacket

text \<open>
  One packet that passed \<^verbatim>\<open>ret > 0\<close> (lines 294 to 391). The result \<open>Inr\<close> is the state
  with which the loop goes on. \<open>ndebug\<close> tells whether the translation unit is compiled
  with \<^verbatim>\<open>NDEBUG\<close>, which turns \<^verbatim>\<open>assert\<close> into nothing.
\<close>

definition process_packet ::
  "VelodyneCapture \<Rightarrow> bool \<Rightarrow> pcap_pkthdr \<Rightarrow> DataPacket \<Rightarrow> capture_state \<Rightarrow> error + capture_state"
where
  "process_packet c ndebug hdr packet st =
     (if len hdr - 42 \<noteq> 1206 then Inr st
      else case unixtime_of (tv_sec hdr) (tv_usec hdr) of
        Inl e \<Rightarrow> Inl e
      | Inr unixtime \<Rightarrow>
          if \<not> ndebug \<and> \<not> (sensorType packet = 0x21 \<or> sensorType packet = 0x22)
          then Inl Assertion_failed
          else process_firings c unixtime packet st)"

text \<open>
  The \<^verbatim>\<open>while( run )\<close> loop. The end of the list is the end of the capture file,
  where \<^verbatim>\<open>pcap_next_ex\<close> returns a value \<open>\<le> 0\<close>.
\<close>

fun capture_loop ::
  "VelodyneCapture \<Rightarrow> bool \<Rightarrow> capture_input list \<Rightarrow> capture_state \<Rightarrow> error + capture_state"
where
  "capture_loop c ndebug [] st = Inr st"
| "capture_loop c ndebug (i # is) st =
     (if \<not> run i then Inr st
      else if ret i \<le> 0 then Inr st
      else case process_packet c ndebug (header i) (payload i) st of
        Inl e \<Rightarrow> Inl e
      | Inr st' \<Rightarrow> capture_loop c ndebug is st')"

definition capturePCAP ::
  "VelodyneCapture \<Rightarrow> bool \<Rightarrow> capture_input list \<Rightarrow> PointCloudT list \<Rightarrow> error + capture_state"
where
  "capturePCAP c ndebug inputs queue0 =
     capture_loop c ndebug inputs \<lparr>last_azimuth = 0, cloud = new_PointCloudT, queue = queue0\<rparr>"

subsection \<open>The consumer side\<close>

text \<open>
  \<^verbatim>\<open>retrieve\<close>: \<open>locked\<close> says whether another thread holds the mutex when
  \<^verbatim>\<open>try_lock\<close> is called. The argument \<^verbatim>\<open>cloud\<close> is a shared pointer, \<open>None\<close> when
  null. The result is the queue and the argument after the call.
\<close>

definition retrieve ::
  "bool \<Rightarrow> PointCloudT list \<Rightarrow> PointCloudT option \<Rightarrow> PointCloudT list \<times> PointCloudT option"
where
  "retrieve locked q cloud_arg =
     (if \<not> locked then
        (case q of [] \<Rightarrow> (q, cloud_arg) | front # rest \<Rightarrow> (rest, Some front))
      else (q, cloud_arg))"

subsection \<open>Notions used to state the properties\<close>

text \<open>
  A capture object whose laser count is positive and whose cos and sin tables have an
  entry for every channel below it, as \<^verbatim>\<open>VLP16Capture::initialize\<close> leaves it.
\<close>

definition calibrated :: "VelodyneCapture \<Rightarrow> bool" where
  "calibrated c \<longleftrightarrow>
     0 < MAX_NUM_LASERS c \<and> nat (MAX_NUM_LASERS c) \<le> length (lut_cos c)
       \<and> nat (MAX_NUM_LASERS c) \<le> length (lut_sin c)"

text \<open>
  The azimuths of the points that a slot, a firing block, a packet and a whole capture
  append, in order. These follow the filter of the source and nothing else: they are
  the yardstick that \<open>last_azimuth\<close> is compared with.
\<close>

definition emitted_slot :: "VelodyneCapture \<Rightarrow> real \<Rightarrow> FiringData \<Rightarrow> nat \<Rightarrow> real list" where
  "emitted_slot c interpolated firing_data laser_index =
     (if real (unat (distance (laserReturns firing_data
           (nat (c_rem (int laser_index) (MAX_NUM_LASERS c)))))) < EPSILON
      then [] else [slot_azimuth c interpolated firing_data laser_index])"

definition emitted_firing :: "VelodyneCapture \<Rightarrow> real \<Rightarrow> FiringData \<Rightarrow> real list" where
  "emitted_firing c interpolated firing_data =
     concat (map (emitted_slot c interpolated firing_data) [0..<LASER_PER_FIRING])"

definition emitted_packet :: "VelodyneCapture \<Rightarrow> pcap_pkthdr \<Rightarrow> DataPacket \<Rightarrow> real list" where
  "emitted_packet c hdr packet =
     (if len hdr - 42 \<noteq> 1206 then []
      else concat (map (\<lambda>firing_index. emitted_firing c (interpolated_azimuth packet)
                          (firingData packet firing_index)) [0..<FIRING_PER_PKT]))"

fun emitted_capture :: "VelodyneCapture \<Rightarrow> capture_input list \<Rightarrow> real list" where
  "emitted_capture c [] = []"
| "emitted_capture c (i # is) =
     (if \<not> run i \<or> ret i \<le> 0 then []
      else emitted_packet c (header i) (payload i) @ emitted_capture c is)"

text \<open>The range of the rotational position of every firing block of a packet.\<close>

definition rotational_positions_valid :: "DataPacket \<Rightarrow> bool" where
  "rotational_positions_valid packet \<longleftrightarrow>
     (\<forall>firing_index < FIRING_PER_PKT.
        unat (rotationalPosition (firingData packet firing_index)) < 36000)"

text \<open>
  Since the capture started with queue \<open>q0\<close>: either no frame was pushed and the
  cloud in progress has a point or \<open>last_azimuth\<close> is still 0, or the first frame
  pushed has a point.
\<close>

definition first_frame_inv :: "PointCloudT list \<Rightarrow> capture_state \<Rightarrow> bool" where
  "first_frame_inv q0 st \<longleftrightarrow>
     (\<exists>fs. queue st = q0 @ fs \<and>
        (case fs of [] \<Rightarrow> last_azimuth st = 0 \<or> points (cloud st) \<noteq> []
         | f # _ \<Rightarrow> points f \<noteq> []))"

text \<open>The frames appended to the queue since it was \<open>q\<close> all carry the stamp \<open>t\<close>.\<close>

definition pushed_with :: "int \<Rightarrow> PointCloudT list \<Rightarrow> capture_state \<Rightarrow> bool" where
  "pushed_with t q st \<longleftrightarrow>
     (\<exists>fs. queue st = q @ fs \<and>
        (\<forall>f \<in> set fs. stamp f = of_int t \<and> height f = 1
                        \<and> width f = of_nat (length (points f))))"

text \<open>The number of points held by the queued frames and the cloud in progress.\<close>

definition total_points :: "capture_state \<Rightarrow> nat" where
  "total_points st = sum_list (map (\<lambda>f. length (points f)) (queue st)) + length (points (cloud st))"


subsection \<open>Sample inputs\<close>

text \<open>
  A firing block at rotational position \<open>a\<close> in which every return has raw distance
  \<open>d\<close>, a packet of twelve such blocks, and a capture input of 1248 bytes carrying it
  with model byte \<open>b\<close>.
\<close>

definition sample_firing :: "16 word \<Rightarrow> 16 word \<Rightarrow> FiringData" where
  "sample_firing a d =
     \<lparr>blockIdentifier = 0xEEFF, rotationalPosition = a,
      laserReturns = (\<lambda>_. \<lparr>distance = d, intensity = 0\<rparr>)\<rparr>"

definition sample_packet :: "16 word \<Rightarrow> 16 word \<Rightarrow> 8 word \<Rightarrow> DataPacket" where
  "sample_packet a d b =
     \<lparr>firingData = (\<lambda>firing_index. sample_firing a d),
      gpsTimestamp = 0, mode = 0x37, sensorType = b\<rparr>"

text \<open>
  A firing block at position \<open>a\<close> in which return \<open>k\<close> alone has raw distance 1.
\<close>

definition single_return_firing :: "16 word \<Rightarrow> nat \<Rightarrow> FiringData" where
  "single_return_firing a k =
     \<lparr>blockIdentifier = 0xEEFF, rotationalPosition = a,
      laserReturns = (\<lambda>j. \<lparr>distance = (if j = k then 1 else 0), intensity = 0\<rparr>)\<rparr>"

text \<open>
  A packet that crosses 0 degrees: block 0 at position 35900 with return 0 alone
  non-zero, the other eleven blocks at position 100 with no echo at all.
\<close>

definition wrap_packet :: DataPacket where
  "wrap_packet =
     \<lparr>firingData = (\<lambda>firing_index. if firing_index = 0 then single_return_firing 35900 0
                                       else sample_firing 100 0),
      gpsTimestamp = 0, mode = 0x37, sensorType = 0x22\<rparr>"

text \<open>
  A packet with a rotational position beyond 35999: block 0 at 65535, block 1 at 0,
  the others at 20000, no echo at all.
\<close>

definition overrange_packet :: DataPacket where
  "overrange_packet =
     \<lparr>firingData = (\<lambda>firing_index. if firing_index = 0 then sample_firing 65535 0
                                       else if firing_index = 1 then sample_firing 0 0
                                       else sample_firing 20000 0),
      gpsTimestamp = 0, mode = 0x37, sensorType = 0x22\<rparr>"

text \<open>A capture input of 1248 bytes, captured at 10 s and 42 microseconds.\<close>

definition input_of :: "DataPacket \<Rightarrow> capture_input" where
  "input_of packet =
     \<lparr>run = True, ret = 1, header = \<lparr>tv_sec = 10, tv_usec = 42, len = 1248\<rparr>,
      payload = packet\<rparr>"

definition sample_input :: "16 word \<Rightarrow> 16 word \<Rightarrow> 8 word \<Rightarrow> capture_input" where
  "sample_input a d b =
     \<lparr>run = True, ret = 1, header = \<lparr>tv_sec = 10, tv_usec = 42, len = 1248\<rparr>,
      payload = sample_packet a d b\<rparr>"

section \<open>Properties\<close>

subsection \<open>Auxiliary facts: arithmetic and tables\<close>

lemma c_rem_nonneg: "0 \<le> a \<Longrightarrow> c_rem a b = a mod \<bar>b\<bar>"
  by (cases "a = 0") (simp_all add: c_rem_def)

lemma calibrated_index:
  assumes "calibrated c"
  shows "nat (c_rem (int j) (MAX_NUM_LASERS c)) < length (lut_cos c)"
    and "nat (c_rem (int j) (MAX_NUM_LASERS c)) < length (lut_sin c)"
proof -
  from assms have n: "0 < MAX_NUM_LASERS c" by (simp add: calibrated_def)
  then have "c_rem (int j) (MAX_NUM_LASERS c) = int j mod MAX_NUM_LASERS c"
    by (simp add: c_rem_nonneg)
  moreover have "int j mod MAX_NUM_LASERS c < MAX_NUM_LASERS c" using n by simp
  ultimately have "nat (c_rem (int j) (MAX_NUM_LASERS c)) < nat (MAX_NUM_LASERS c)"
    using n by (simp add: nat_less_iff)
  moreover from assms have "nat (MAX_NUM_LASERS c) \<le> length (lut_cos c)"
    and "nat (MAX_NUM_LASERS c) \<le> length (lut_sin c)"
    by (simp_all add: calibrated_def)
  ultimately show "nat (c_rem (int j) (MAX_NUM_LASERS c)) < length (lut_cos c)"
    and "nat (c_rem (int j) (MAX_NUM_LASERS c)) < length (lut_sin c)"
    by linarith+
qed

lemma calibrated_VLP16: "calibrated (VLP16Capture n0)"
  by (simp add: calibrated_def VLP16Capture_def VLP16Capture_initialize_def VLP16_lut_def)

text \<open>The comparison of the 16-bit distance with \<open>EPSILON\<close> is a test for zero.\<close>

lemma below_EPSILON: "((unsigned (d :: 16 word) :: real) < EPSILON) = (d = 0)"
proof (cases "d = 0")
  case True
  then show ?thesis by (simp add: EPSILON_def)
next
  case False
  then have "1 \<le> unat d" using unat_gt_0 [of d] by simp
  then have "(1::real) \<le> real (unat d)" by (simp del: of_nat_unat)
  then have "(1::real) \<le> unsigned d" by (simp only: of_nat_unat)
  with False show ?thesis by (simp add: EPSILON_def)
qed

lemma unsigned_real_nonneg: "(0::real) \<le> unsigned (w :: 16 word)"
proof -
  have "(0::real) \<le> real (unat w)" by (simp only: of_nat_0_le_iff)
  then show ?thesis by (simp only: of_nat_unat)
qed

lemma slot_azimuth_nonneg:
  "0 \<le> interpolated \<Longrightarrow> 0 \<le> slot_azimuth c interpolated firing_data laser_index"
  using unsigned_real_nonneg [of "rotationalPosition firing_data"]
  by (simp add: slot_azimuth_def Let_def)

lemma interpolated_azimuth_nonneg:
  assumes "rotational_positions_valid packet"
  shows "0 \<le> interpolated_azimuth packet"
proof -
  from assms have "unat (rotationalPosition (firingData packet 0)) < 36000"
    by (simp add: rotational_positions_valid_def FIRING_PER_PKT_def)
  then have "int (unat (rotationalPosition (firingData packet 0))) < int 36000"
    by (simp only: of_nat_less_iff)
  then have "uint (rotationalPosition (firingData packet 0)) < 36000"
    by simp
  moreover have "0 \<le> uint (rotationalPosition (firingData packet 1))" by simp
  ultimately have "0 \<le> (uint (rotationalPosition (firingData packet 1)) + 36000)
      - uint (rotationalPosition (firingData packet 0))" by linarith
  then have "0 \<le> real_of_int ((uint (rotationalPosition (firingData packet 1)) + 36000)
      - uint (rotationalPosition (firingData packet 0)))" by (simp only: of_int_0_le_iff)
  moreover have "0 \<le> real_of_int (uint (rotationalPosition (firingData packet 1))
      - uint (rotationalPosition (firingData packet 0)))"
    if "\<not> uint (rotationalPosition (firingData packet 1))
          < uint (rotationalPosition (firingData packet 0))"
    using that by (simp only: of_int_0_le_iff)
  ultimately show ?thesis
    unfolding interpolated_azimuth_def Let_def
    by (simp split: if_split)
qed

lemma replicate_numeral_unfold: "replicate (numeral k) ch = ch # replicate (pred_numeral k) ch"
  by (simp add: numeral_eq_Suc)

lemmas unixtime_eval = unixtime_of_def setw_left_def show_int_def show_nat.simps digit_char_def
  stoll_def is_space_def is_digit_def digits_value_def digit_val_def replicate_numeral_unfold

lemma interpolated_azimuth_sensorType [simp]:
  "interpolated_azimuth (packet\<lparr>sensorType := b\<rparr>) = interpolated_azimuth packet"
  by (simp add: interpolated_azimuth_def)

lemma process_firings_sensorType [simp]:
  "process_firings c unixtime (packet\<lparr>sensorType := b\<rparr>) st = process_firings c unixtime packet st"
  by (simp add: process_firings_def)

subsection \<open>Auxiliary facts: loops\<close>

lemma for_each_Cons_Inr:
  "for_each body (x # xs) s = Inr s' \<longleftrightarrow>
     (\<exists>s1. body x s = Inr s1 \<and> for_each body xs s1 = Inr s')"
  by (cases "body x s") simp_all

lemma last_trace_append: "last (last (a # xs) # ys) = last (a # xs @ ys)"
  by (cases ys) simp_all

text \<open>A quantity that every step sets to the last element of what the step emits.\<close>

lemma for_each_trace:
  assumes step: "\<And>i s s'. body i s = Inr s' \<Longrightarrow> f s' = last (f s # em i)"
  shows "for_each body xs s = Inr s' \<Longrightarrow> f s' = last (f s # concat (map em xs))"
proof (induction xs arbitrary: s)
  case Nil
  then show ?case by simp
next
  case (Cons x xs)
  from Cons.prems obtain s1 where b: "body x s = Inr s1" and r: "for_each body xs s1 = Inr s'"
    unfolding for_each_Cons_Inr by blast
  have "f s' = last (f s1 # concat (map em xs))" by (rule Cons.IH [OF r])
  also have "f s1 = last (f s # em x)" by (rule step [OF b])
  also have "last (last (f s # em x) # concat (map em xs)) = last (f s # em x @ concat (map em xs))"
    by (rule last_trace_append)
  finally show ?case by (simp only: list.map concat.simps)
qed

lemma for_each_invariant:
  assumes "\<And>i s s'. i \<in> set xs \<Longrightarrow> P s \<Longrightarrow> body i s = Inr s' \<Longrightarrow> P s'"
    and "P s" and "for_each body xs s = Inr s'"
  shows "P s'"
  using assms
proof (induction xs arbitrary: s)
  case Nil
  then show ?case by simp
next
  case (Cons x xs)
  from Cons.prems(3) obtain s1 where b: "body x s = Inr s1" and r: "for_each body xs s1 = Inr s'"
    unfolding for_each_Cons_Inr by blast
  have x: "x \<in> set (x # xs)" by simp
  have p1: "P s1" by (rule Cons.prems(1) [OF x Cons.prems(2) b])
  have step: "P t'" if "i \<in> set xs" and "P t" and "body i t = Inr t'" for i t t'
  proof -
    from that(1) have "i \<in> set (x # xs)" by simp
    then show ?thesis using that(2,3) by (rule Cons.prems(1))
  qed
  show ?case by (rule Cons.IH [OF step p1 r])
qed

lemma for_each_total:
  assumes step: "\<And>i s. \<exists>s'. body i s = Inr s'"
  shows "\<exists>s'. for_each body xs s = Inr s'"
proof (induction xs arbitrary: s)
  case Nil
  then show ?case by simp
next
  case (Cons x xs)
  from step obtain s1 where b: "body x s = Inr s1" by blast
  from Cons.IH [of s1] obtain s' where "for_each body xs s1 = Inr s'" by blast
  with b show ?case unfolding for_each_Cons_Inr by blast
qed

subsection \<open>Auxiliary facts: one slot\<close>

text \<open>What one slot does, in one equation, for a calibrated capture object.\<close>

lemma process_laser_calibrated:
  assumes "calibrated c"
  shows "process_laser c unixtime interpolated firing_data laser_index st =
     Inr (let m = nat (c_rem (int laser_index) (MAX_NUM_LASERS c));
              azimuth = slot_azimuth c interpolated firing_data laser_index;
              st1 = rotation_test unixtime azimuth st
          in if distance (laserReturns firing_data m) = 0 then st1
             else st1\<lparr>cloud := (cloud st1)\<lparr>points := points (cloud st1)
                          @ [reconstruct_point c m (laserReturns firing_data m) azimuth]\<rparr>,
                      last_azimuth := azimuth\<rparr>)"
proof -
  from assms have n: "MAX_NUM_LASERS c \<noteq> 0" by (simp add: calibrated_def)
  show ?thesis
    using n calibrated_index [OF assms, of laser_index]
    by (simp add: process_laser_def Let_def below_EPSILON)
qed

text \<open>Whenever a slot is processed without error, it went one of two ways.\<close>

lemma process_laser_Inr:
  assumes "process_laser c unixtime interpolated firing_data laser_index st = Inr st'"
  shows "st' = rotation_test unixtime (slot_azimuth c interpolated firing_data laser_index) st
       \<or> (\<exists>p. st' =
             (rotation_test unixtime (slot_azimuth c interpolated firing_data laser_index) st)
               \<lparr>cloud := (cloud (rotation_test unixtime
                                   (slot_azimuth c interpolated firing_data laser_index) st))
                    \<lparr>points := points (cloud (rotation_test unixtime
                                    (slot_azimuth c interpolated firing_data laser_index) st))
                               @ [p]\<rparr>,
                last_azimuth := slot_azimuth c interpolated firing_data laser_index\<rparr>)"
proof (cases "MAX_NUM_LASERS c = 0")
  case True
  with assms show ?thesis by (simp add: process_laser_def)
next
  case False
  show ?thesis
  proof (cases "real (unat (distance (laserReturns firing_data
                  (nat (c_rem (int laser_index) (MAX_NUM_LASERS c)))))) < EPSILON")
    case True
    with assms False show ?thesis by (simp add: process_laser_def Let_def)
  next
    case nf: False
    show ?thesis
    proof (cases "length (lut_cos c) \<le> nat (c_rem (int laser_index) (MAX_NUM_LASERS c))
                   \<or> length (lut_sin c) \<le> nat (c_rem (int laser_index) (MAX_NUM_LASERS c))")
      case True
      with assms False nf show ?thesis by (simp add: process_laser_def Let_def)
    next
      case inb: False
      from False nf inb have "process_laser c unixtime interpolated firing_data laser_index st =
        Inr ((rotation_test unixtime (slot_azimuth c interpolated firing_data laser_index) st)
               \<lparr>cloud := (cloud (rotation_test unixtime
                                   (slot_azimuth c interpolated firing_data laser_index) st))
                    \<lparr>points := points (cloud (rotation_test unixtime
                                    (slot_azimuth c interpolated firing_data laser_index) st))
                       @ [reconstruct_point c (nat (c_rem (int laser_index) (MAX_NUM_LASERS c)))
                            (laserReturns firing_data
                               (nat (c_rem (int laser_index) (MAX_NUM_LASERS c))))
                            (slot_azimuth c interpolated firing_data laser_index)]\<rparr>,
                last_azimuth := slot_azimuth c interpolated firing_data laser_index\<rparr>)"
        by (simp add: process_laser_def Let_def)
      with assms have "st' =
             (rotation_test unixtime (slot_azimuth c interpolated firing_data laser_index) st)
               \<lparr>cloud := (cloud (rotation_test unixtime
                                   (slot_azimuth c interpolated firing_data laser_index) st))
                    \<lparr>points := points (cloud (rotation_test unixtime
                                    (slot_azimuth c interpolated firing_data laser_index) st))
                       @ [reconstruct_point c (nat (c_rem (int laser_index) (MAX_NUM_LASERS c)))
                            (laserReturns firing_data
                               (nat (c_rem (int laser_index) (MAX_NUM_LASERS c))))
                            (slot_azimuth c interpolated firing_data laser_index)]\<rparr>,
                last_azimuth := slot_azimuth c interpolated firing_data laser_index\<rparr>"
        by (simp only: sum.inject)
      then show ?thesis by blast
    qed
  qed
qed

lemma last_azimuth_rotation_test [simp]:
  "last_azimuth (rotation_test unixtime azimuth st) = last_azimuth st"
  by (simp add: rotation_test_def push_rotation_def)

lemma process_laser_last_azimuth:
  assumes "process_laser c unixtime interpolated firing_data laser_index st = Inr st'"
  shows "last_azimuth st' = last (last_azimuth st # emitted_slot c interpolated firing_data laser_index)"
proof (cases "MAX_NUM_LASERS c = 0")
  case True
  with assms show ?thesis by (simp add: process_laser_def)
next
  case False
  show ?thesis
  proof (cases "real (unat (distance (laserReturns firing_data
                  (nat (c_rem (int laser_index) (MAX_NUM_LASERS c)))))) < EPSILON")
    case True
    with assms False have "st' =
        rotation_test unixtime (slot_azimuth c interpolated firing_data laser_index) st"
      by (simp add: process_laser_def Let_def)
    with True show ?thesis by (simp add: emitted_slot_def)
  next
    case nf: False
    with assms False
    have "last_azimuth st' = slot_azimuth c interpolated firing_data laser_index"
      by (auto simp add: process_laser_def Let_def split: if_splits)
    with nf show ?thesis by (simp add: emitted_slot_def)
  qed
qed

subsection \<open>Auxiliary facts: \<open>last_azimuth\<close> along a capture\<close>

lemma process_firing_last_azimuth:
  assumes "process_firing c unixtime interpolated firing_data st = Inr st'"
  shows "last_azimuth st' = last (last_azimuth st # emitted_firing c interpolated firing_data)"
  using assms unfolding process_firing_def emitted_firing_def
  by (rule for_each_trace [rotated]) (rule process_laser_last_azimuth)

lemma process_packet_last_azimuth:
  assumes "process_packet c ndebug hdr packet st = Inr st'"
  shows "last_azimuth st' = last (last_azimuth st # emitted_packet c hdr packet)"
proof (cases "len hdr - 42 \<noteq> 1206")
  case True
  with assms show ?thesis by (simp add: process_packet_def emitted_packet_def)
next
  case False
  with assms obtain unixtime where "process_firings c unixtime packet st = Inr st'"
    by (auto simp add: process_packet_def split: sum.splits if_splits)
  then have "last_azimuth st' = last (last_azimuth st #
      concat (map (\<lambda>firing_index. emitted_firing c (interpolated_azimuth packet)
                          (firingData packet firing_index)) [0..<FIRING_PER_PKT]))"
    unfolding process_firings_def
    by (rule for_each_trace [rotated]) (rule process_firing_last_azimuth)
  with False show ?thesis by (simp add: emitted_packet_def)
qed

lemma capture_loop_last_azimuth:
  "capture_loop c ndebug inputs st = Inr st' \<Longrightarrow>
     last_azimuth st' = last (last_azimuth st # emitted_capture c inputs)"
proof (induction inputs arbitrary: st)
  case Nil
  then show ?case by simp
next
  case (Cons i "is")
  show ?case
  proof (cases "\<not> run i \<or> ret i \<le> 0")
    case True
    with Cons.prems show ?thesis by (auto split: if_splits)
  next
    case False
    with Cons.prems obtain st1 where
      p: "process_packet c ndebug (header i) (payload i) st = Inr st1"
      and r: "capture_loop c ndebug is st1 = Inr st'"
      by (auto split: sum.splits)
    from Cons.IH [OF r] process_packet_last_azimuth [OF p] False
    show ?thesis by simp
  qed
qed

subsection \<open>Auxiliary facts: the first frame\<close>

lemma first_frame_inv_initial:
  "first_frame_inv q0 \<lparr>last_azimuth = 0, cloud = new_PointCloudT, queue = q0\<rparr>"
  by (simp add: first_frame_inv_def)

lemma first_frame_inv_rotation_test:
  assumes "first_frame_inv q0 st" and "0 \<le> azimuth"
  shows "first_frame_inv q0 (rotation_test unixtime azimuth st)"
proof (cases "azimuth < last_azimuth st")
  case False
  with assms(1) show ?thesis by (simp add: rotation_test_def)
next
  case True
  with assms(2) have nz: "last_azimuth st \<noteq> 0" by simp
  from assms(1) obtain fs where q: "queue st = q0 @ fs"
    and fs: "case fs of [] \<Rightarrow> last_azimuth st = 0 \<or> points (cloud st) \<noteq> []
             | f # _ \<Rightarrow> points f \<noteq> []"
    unfolding first_frame_inv_def by blast
  show ?thesis
  proof (cases fs)
    case Nil
    with fs nz have "points (cloud st) \<noteq> []" by simp
    with True q Nil show ?thesis
      by (simp add: first_frame_inv_def rotation_test_def push_rotation_def)
  next
    case (Cons g gs)
    with fs have "points g \<noteq> []" by simp
    with True q Cons show ?thesis
      by (simp add: first_frame_inv_def rotation_test_def push_rotation_def)
  qed
qed

lemma first_frame_inv_append:
  assumes "first_frame_inv q0 s"
  shows "first_frame_inv q0 (s\<lparr>cloud := (cloud s)\<lparr>points := points (cloud s) @ [p]\<rparr>,
                               last_azimuth := a\<rparr>)"
proof -
  from assms obtain fs where q: "queue s = q0 @ fs"
    and fs: "case fs of [] \<Rightarrow> last_azimuth s = 0 \<or> points (cloud s) \<noteq> []
             | f # _ \<Rightarrow> points f \<noteq> []"
    unfolding first_frame_inv_def by blast
  show ?thesis
  proof (cases fs)
    case Nil
    with q show ?thesis by (simp add: first_frame_inv_def)
  next
    case (Cons g gs)
    with q fs show ?thesis by (simp add: first_frame_inv_def)
  qed
qed

lemma process_laser_first_frame:
  assumes "0 \<le> interpolated" and "first_frame_inv q0 st"
    and "process_laser c unixtime interpolated firing_data laser_index st = Inr st'"
  shows "first_frame_inv q0 st'"
proof -
  let ?st1 = "rotation_test unixtime (slot_azimuth c interpolated firing_data laser_index) st"
  have az: "0 \<le> slot_azimuth c interpolated firing_data laser_index"
    using assms(1) by (rule slot_azimuth_nonneg)
  have st1: "first_frame_inv q0 ?st1"
    using assms(2) az by (rule first_frame_inv_rotation_test)
  from process_laser_Inr [OF assms(3)] show ?thesis
  proof
    assume "st' = ?st1"
    with st1 show ?thesis by (simp only:)
  next
    assume "\<exists>p. st' = ?st1\<lparr>cloud := (cloud ?st1)\<lparr>points := points (cloud ?st1) @ [p]\<rparr>,
                last_azimuth := slot_azimuth c interpolated firing_data laser_index\<rparr>"
    then obtain p where "st' = ?st1\<lparr>cloud := (cloud ?st1)\<lparr>points := points (cloud ?st1) @ [p]\<rparr>,
                last_azimuth := slot_azimuth c interpolated firing_data laser_index\<rparr>" ..
    with first_frame_inv_append [OF st1] show ?thesis by (simp only:)
  qed
qed

lemma process_firings_first_frame:
  assumes "0 \<le> interpolated_azimuth packet" and "first_frame_inv q0 st"
    and "process_firings c unixtime packet st = Inr st'"
  shows "first_frame_inv q0 st'"
proof -
  have firing: "first_frame_inv q0 t'"
    if "first_frame_inv q0 t"
      and "process_firing c unixtime (interpolated_azimuth packet) fd t = Inr t'" for fd t t'
    using _ that unfolding process_firing_def
    by (rule for_each_invariant) (rule process_laser_first_frame [OF assms(1)])
  show ?thesis
    using _ assms(2,3) unfolding process_firings_def
    by (rule for_each_invariant) (rule firing)
qed

lemma process_packet_first_frame:
  assumes "rotational_positions_valid packet" and "first_frame_inv q0 st"
    and "process_packet c ndebug hdr packet st = Inr st'"
  shows "first_frame_inv q0 st'"
proof (cases "len hdr - 42 \<noteq> 1206")
  case True
  with assms(2,3) show ?thesis by (simp add: process_packet_def)
next
  case False
  with assms(3) obtain unixtime where "process_firings c unixtime packet st = Inr st'"
    by (auto simp add: process_packet_def split: sum.splits if_splits)
  with interpolated_azimuth_nonneg [OF assms(1)] assms(2) show ?thesis
    by (rule process_firings_first_frame)
qed

lemma capture_loop_first_frame:
  assumes "\<forall>i \<in> set inputs. rotational_positions_valid (payload i)"
    and "first_frame_inv q0 st" and "capture_loop c ndebug inputs st = Inr st'"
  shows "first_frame_inv q0 st'"
  using assms
proof (induction inputs arbitrary: st)
  case Nil
  then show ?case by simp
next
  case (Cons i "is")
  show ?case
  proof (cases "\<not> run i \<or> ret i \<le> 0")
    case True
    with Cons.prems(2,3) show ?thesis by (auto split: if_splits)
  next
    case False
    with Cons.prems(3) obtain st1 where
      p: "process_packet c ndebug (header i) (payload i) st = Inr st1"
      and r: "capture_loop c ndebug is st1 = Inr st'"
      by (auto split: sum.splits)
    from Cons.prems(1) have v: "rotational_positions_valid (payload i)"
      and vs: "\<forall>i \<in> set is. rotational_positions_valid (payload i)" by simp_all
    from v Cons.prems(2) p have "first_frame_inv q0 st1" by (rule process_packet_first_frame)
    with vs show ?thesis using r by (rule Cons.IH)
  qed
qed

subsection \<open>Auxiliary facts: processing without error\<close>

lemma process_firings_total:
  assumes "calibrated c"
  shows "\<exists>st'. process_firings c unixtime packet st = Inr st'"
  unfolding process_firings_def process_firing_def [abs_def]
  by (rule for_each_total, rule for_each_total)
     (simp add: process_laser_calibrated [OF assms])

lemma sample_input_valid: "rotational_positions_valid (payload (sample_input 100 d b))"
  by (simp add: rotational_positions_valid_def sample_input_def sample_packet_def
      sample_firing_def)

lemma sample_capture_total:
  "\<exists>st'. capturePCAP (VLP16Capture 0) False [sample_input 100 1 0x22] [] = Inr st'"
proof -
  obtain st1 where "process_firings (VLP16Capture 0) 10420000 (sample_packet 100 1 0x22)
      \<lparr>last_azimuth = 0, cloud = new_PointCloudT, queue = []\<rparr> = Inr st1"
    using process_firings_total [OF calibrated_VLP16] by blast
  then show ?thesis
    by (simp add: capturePCAP_def process_packet_def sample_input_def sample_packet_def
        unixtime_eval)
qed

subsection \<open>Auxiliary facts: counting points\<close>



lemma total_points_rotation_test [simp]:
  "total_points (rotation_test unixtime azimuth st) = total_points st"
  by (simp add: rotation_test_def push_rotation_def total_points_def new_PointCloudT_def)





subsection \<open>Auxiliary facts: the stamp of the frames of a packet\<close>

lemma pushed_with_rotation_test:
  assumes "pushed_with t q st"
  shows "pushed_with t q (rotation_test t azimuth st)"
proof -
  from assms obtain fs where "queue st = q @ fs"
    and "\<forall>f \<in> set fs. stamp f = of_int t \<and> height f = 1 \<and> width f = of_nat (length (points f))"
    unfolding pushed_with_def by blast
  then show ?thesis
    by (simp add: pushed_with_def rotation_test_def push_rotation_def)
qed

lemma pushed_with_cloud [simp]:
  "pushed_with t q (st\<lparr>cloud := cl, last_azimuth := a\<rparr>) = pushed_with t q st"
  by (simp add: pushed_with_def)

lemma process_laser_pushed_with:
  assumes "pushed_with t q st"
    and "process_laser c t interpolated firing_data laser_index st = Inr st'"
  shows "pushed_with t q st'"
  using process_laser_Inr [OF assms(2)] pushed_with_rotation_test [OF assms(1)]
  by auto

lemma process_firings_pushed_with:
  assumes "process_firings c t packet st = Inr st'"
  shows "pushed_with t (queue st) st'"
proof -
  have init: "pushed_with t (queue st) st" by (simp add: pushed_with_def)
  have firing: "pushed_with t (queue st) s'"
    if "pushed_with t (queue st) s"
      and "process_firing c t (interpolated_azimuth packet) fd s = Inr s'" for fd s s'
    using _ that unfolding process_firing_def
    by (rule for_each_invariant) (rule process_laser_pushed_with)
  show ?thesis
    using _ init assms unfolding process_firings_def
    by (rule for_each_invariant) (rule firing)
qed

subsection \<open>Auxiliary facts: the sample packets, slot by slot\<close>

lemma upt32: "[0..<32] = [0,1,2,3,4,5,6,7,8,9,10,11,12,13,14,15,16,17,18,19,20,21,22,23,24,25,26,27,28,29,30,31::nat]"
  by (simp add: upt_rec)

lemma upt12: "[0..<12] = [0,1,2,3,4,5,6,7,8,9,10,11::nat]"
  by (simp add: upt_rec)

lemma MAX_NUM_LASERS_VLP16: "MAX_NUM_LASERS (VLP16Capture n0) = 16"
  by (simp add: VLP16Capture_def VLP16Capture_initialize_def)

lemmas slot_eval = process_firing_def LASER_PER_FIRING_def upt32
  MAX_NUM_LASERS_VLP16 Let_def c_rem_def slot_azimuth_def rotation_test_def push_rotation_def new_PointCloudT_def

lemma wrap_packet_interpolated: "interpolated_azimuth wrap_packet = 100"
  by (simp add: interpolated_azimuth_def wrap_packet_def single_return_firing_def sample_firing_def)

lemma wrap_packet_block0: "process_firing (VLP16Capture 0) unixtime 100 (single_return_firing 35900 0)
     \<lparr>last_azimuth = 0, cloud = new_PointCloudT, queue = []\<rparr>
   = Inr \<lparr>last_azimuth = 0,
          cloud = new_PointCloudT\<lparr>points :=
             [reconstruct_point (VLP16Capture 0) 0 \<lparr>distance = 1, intensity = 0\<rparr> 0]\<rparr>,
          queue = [\<lparr>stamp = of_int unixtime, width = 1, height = 1, points =
             [reconstruct_point (VLP16Capture 0) 0 \<lparr>distance = 1, intensity = 0\<rparr> 35900]\<rparr>]\<rparr>"
  by (simp add: process_laser_calibrated [OF calibrated_VLP16] slot_eval single_return_firing_def)

lemma wrap_packet_quiet_block: 
  assumes "last_azimuth st \<le> 100"
  shows "process_firing (VLP16Capture 0) unixtime 100 (sample_firing 100 0) st = Inr st"
  using assms
  by (simp add: process_laser_calibrated [OF calibrated_VLP16] slot_eval sample_firing_def)

lemma wrap_packet_firings: "process_firings (VLP16Capture 0) unixtime wrap_packet
     \<lparr>last_azimuth = 0, cloud = new_PointCloudT, queue = []\<rparr>
   = Inr \<lparr>last_azimuth = 0,
          cloud = new_PointCloudT\<lparr>points :=
             [reconstruct_point (VLP16Capture 0) 0 \<lparr>distance = 1, intensity = 0\<rparr> 0]\<rparr>,
          queue = [\<lparr>stamp = of_int unixtime, width = 1, height = 1, points =
             [reconstruct_point (VLP16Capture 0) 0 \<lparr>distance = 1, intensity = 0\<rparr> 35900]\<rparr>]\<rparr>"
proof -
  have fd: "firingData wrap_packet f =
      (if f = 0 then single_return_firing 35900 0 else sample_firing 100 0)" for f
    by (simp add: wrap_packet_def)
  show ?thesis
    by (simp add: process_firings_def FIRING_PER_PKT_def upt12 wrap_packet_interpolated fd wrap_packet_block0
        wrap_packet_quiet_block)
qed

lemma overrange_packet_interpolated: "interpolated_azimuth overrange_packet = - (29535 / 2)"
  by (simp add: interpolated_azimuth_def overrange_packet_def sample_firing_def)

lemma overrange_packet_block0: 
  "process_firing (VLP16Capture 0) unixtime (- (29535 / 2)) (sample_firing 65535 0)
     \<lparr>last_azimuth = 0, cloud = new_PointCloudT, queue = []\<rparr>
   = Inr \<lparr>last_azimuth = 0, cloud = new_PointCloudT, queue = []\<rparr>"
  by (simp add: process_laser_calibrated [OF calibrated_VLP16] slot_eval sample_firing_def)

lemma overrange_packet_block1: 
  "process_firing (VLP16Capture 0) unixtime (- (29535 / 2)) (sample_firing 0 0)
     \<lparr>last_azimuth = 0, cloud = new_PointCloudT, queue = []\<rparr>
   = Inr \<lparr>last_azimuth = 0, cloud = new_PointCloudT,
          queue = replicate 16 \<lparr>stamp = of_int unixtime, width = 0, height = 1, points = []\<rparr>\<rparr>"
  by (simp add: process_laser_calibrated [OF calibrated_VLP16] slot_eval sample_firing_def
      replicate_numeral_unfold)

lemma overrange_packet_quiet_block: 
  assumes "last_azimuth st \<le> 0"
  shows "process_firing (VLP16Capture 0) unixtime (- (29535 / 2)) (sample_firing 20000 0) st = Inr st"
  using assms
  by (simp add: process_laser_calibrated [OF calibrated_VLP16] slot_eval sample_firing_def)

lemma overrange_packet_firings: "process_firings (VLP16Capture 0) unixtime overrange_packet
     \<lparr>last_azimuth = 0, cloud = new_PointCloudT, queue = []\<rparr>
   = Inr \<lparr>last_azimuth = 0, cloud = new_PointCloudT,
          queue = replicate 16 \<lparr>stamp = of_int unixtime, width = 0, height = 1, points = []\<rparr>\<rparr>"
proof -
  have fd: "firingData overrange_packet f =
      (if f = 0 then sample_firing 65535 0 else if f = 1 then sample_firing 0 0
       else sample_firing 20000 0)" for f
    by (simp add: overrange_packet_def)
  show ?thesis
    by (simp add: process_firings_def FIRING_PER_PKT_def upt12 overrange_packet_interpolated fd overrange_packet_block0
        overrange_packet_block1 overrange_packet_quiet_block)
qed

lemma sensorType_wrap [simp]: "sensorType wrap_packet = 0x22"
  by (simp add: wrap_packet_def)

lemma sensorType_overrange [simp]: "sensorType overrange_packet = 0x22"
  by (simp add: overrange_packet_def)

lemma input_of_simps [simp]:
  "run (input_of packet)" "ret (input_of packet) = 1" "payload (input_of packet) = packet"
  "tv_sec (header (input_of packet)) = 10" "tv_usec (header (input_of packet)) = 42"
  "len (header (input_of packet)) = 1248"
  by (simp_all add: input_of_def)

lemma unixtime_10_42: "unixtime_of 10 42 = Inr 10420000"
  by (simp add: unixtime_eval)

lemma wrap_packet_processed:
  "process_packet (VLP16Capture 0) False (header (input_of wrap_packet)) wrap_packet
     \<lparr>last_azimuth = 0, cloud = new_PointCloudT, queue = []\<rparr>
   = Inr \<lparr>last_azimuth = 0,
          cloud = new_PointCloudT\<lparr>points :=
             [reconstruct_point (VLP16Capture 0) 0 \<lparr>distance = 1, intensity = 0\<rparr> 0]\<rparr>,
          queue = [\<lparr>stamp = 10420000, width = 1, height = 1, points =
             [reconstruct_point (VLP16Capture 0) 0 \<lparr>distance = 1, intensity = 0\<rparr> 35900]\<rparr>]\<rparr>"
  by (simp add: process_packet_def unixtime_10_42 wrap_packet_firings)

lemma wrap_capture:
  "capturePCAP (VLP16Capture 0) False [input_of wrap_packet] []
   = Inr \<lparr>last_azimuth = 0,
          cloud = new_PointCloudT\<lparr>points :=
             [reconstruct_point (VLP16Capture 0) 0 \<lparr>distance = 1, intensity = 0\<rparr> 0]\<rparr>,
          queue = [\<lparr>stamp = 10420000, width = 1, height = 1, points =
             [reconstruct_point (VLP16Capture 0) 0 \<lparr>distance = 1, intensity = 0\<rparr> 35900]\<rparr>]\<rparr>"
  by (simp add: capturePCAP_def wrap_packet_processed)

lemma overrange_capture:
  "capturePCAP (VLP16Capture 0) False [input_of overrange_packet] []
   = Inr \<lparr>last_azimuth = 0, cloud = new_PointCloudT,
          queue = replicate 16 \<lparr>stamp = 10420000, width = 0, height = 1, points = []\<rparr>\<rparr>"
  by (simp add: capturePCAP_def process_packet_def unixtime_10_42 overrange_packet_firings)

lemma wrap_packet_valid: "rotational_positions_valid wrap_packet"
  by (simp add: rotational_positions_valid_def wrap_packet_def single_return_firing_def
      sample_firing_def)

subsection \<open>Rotation boundaries\<close>

text \<open>
  C1, as claimed, fails in three ways. (1) The frame completed in a packet captured at
  10 s and 42 microseconds is stamped 10420000, which is not that time in microseconds,
  10000042. (2) On the 32-channel class a slot whose azimuth has gone down and whose
  return is not zero ends in the read of an empty table: the return does not land in a
  new frame. (3) For slot azimuths 100, 200, 350, 50, 120 with the return at 50 zero,
  two frames are completed, the second one empty.
\<close>

theorem rotation_boundary_counterexample:
  "capturePCAP (VLP16Capture 0) False [input_of wrap_packet] []
     = Inr \<lparr>last_azimuth = 0,
            cloud = new_PointCloudT\<lparr>points :=
               [reconstruct_point (VLP16Capture 0) 0 \<lparr>distance = 1, intensity = 0\<rparr> 0]\<rparr>,
            queue = [\<lparr>stamp = 10420000, width = 1, height = 1, points =
               [reconstruct_point (VLP16Capture 0) 0 \<lparr>distance = 1, intensity = 0\<rparr> 35900]\<rparr>]\<rparr>
   \<and> tv_sec (header (input_of wrap_packet)) = 10
   \<and> tv_usec (header (input_of wrap_packet)) = 42
   \<and> (10420000 :: 64 word) \<noteq> 10 * 1000000 + 42
   \<and> process_laser (HDL32ECapture 0) 7 0 (sample_firing 50 1) 0
        \<lparr>last_azimuth = 350, cloud = new_PointCloudT, queue = []\<rparr>
       = Inl Vector_index_out_of_range
   \<and> for_each (\<lambda>firing_data. process_laser (VLP16Capture 0) 7 0 firing_data 0)
        [sample_firing 100 1, sample_firing 200 1, sample_firing 350 1, sample_firing 50 0,
         sample_firing 120 1]
        \<lparr>last_azimuth = 0, cloud = new_PointCloudT, queue = []\<rparr>
       = Inr \<lparr>last_azimuth = 120,
              cloud = new_PointCloudT\<lparr>points :=
                 [reconstruct_point (VLP16Capture 0) 0 \<lparr>distance = 1, intensity = 0\<rparr> 120]\<rparr>,
              queue = [\<lparr>stamp = 7, width = 3, height = 1, points =
                         map (reconstruct_point (VLP16Capture 0) 0 \<lparr>distance = 1, intensity = 0\<rparr>)
                           [100, 200, 350]\<rparr>,
                       \<lparr>stamp = 7, width = 0, height = 1, points = []\<rparr>]\<rparr>"
proof (intro conjI)
  show "capturePCAP (VLP16Capture 0) False [input_of wrap_packet] []
     = Inr \<lparr>last_azimuth = 0,
            cloud = new_PointCloudT\<lparr>points :=
               [reconstruct_point (VLP16Capture 0) 0 \<lparr>distance = 1, intensity = 0\<rparr> 0]\<rparr>,
            queue = [\<lparr>stamp = 10420000, width = 1, height = 1, points =
               [reconstruct_point (VLP16Capture 0) 0 \<lparr>distance = 1, intensity = 0\<rparr> 35900]\<rparr>]\<rparr>"
    by (rule wrap_capture)
  show "tv_sec (header (input_of wrap_packet)) = 10"
    and "tv_usec (header (input_of wrap_packet)) = 42"
    and "(10420000 :: 64 word) \<noteq> 10 * 1000000 + 42"
    by simp_all
  show "process_laser (HDL32ECapture 0) 7 0 (sample_firing 50 1) 0
        \<lparr>last_azimuth = 350, cloud = new_PointCloudT, queue = []\<rparr>
       = Inl Vector_index_out_of_range"
    by (simp add: process_laser_def HDL32ECapture_def HDL32ECapture_initialize_def
        VelodyneCapture_ctor_def sample_firing_def EPSILON_def Let_def)
  show "for_each (\<lambda>firing_data. process_laser (VLP16Capture 0) 7 0 firing_data 0)
        [sample_firing 100 1, sample_firing 200 1, sample_firing 350 1, sample_firing 50 0,
         sample_firing 120 1]
        \<lparr>last_azimuth = 0, cloud = new_PointCloudT, queue = []\<rparr>
       = Inr \<lparr>last_azimuth = 120,
              cloud = new_PointCloudT\<lparr>points :=
                 [reconstruct_point (VLP16Capture 0) 0 \<lparr>distance = 1, intensity = 0\<rparr> 120]\<rparr>,
              queue = [\<lparr>stamp = 7, width = 3, height = 1, points =
                         map (reconstruct_point (VLP16Capture 0) 0 \<lparr>distance = 1, intensity = 0\<rparr>)
                           [100, 200, 350]\<rparr>,
                       \<lparr>stamp = 7, width = 0, height = 1, points = []\<rparr>]\<rparr>"
    by (simp add: process_laser_calibrated [OF calibrated_VLP16] slot_eval sample_firing_def)
qed

text \<open>
  C1, amended. For a capture object whose cos and sin tables cover its laser count:
  every slot is processed without error; if the slot's azimuth is strictly below
  \<open>last_azimuth\<close>, the cloud in progress, stamped with the timestamp handed down for
  the packet, of height 1 and with its width the number of its points (cast to 32
  bits), is appended to the queue, and the cloud in progress afterwards holds nothing
  but the point of the current return, if that return passes the filter; otherwise the
  queue is unchanged. A packet of the right size and accepted model byte is processed
  as its 12 times 32 slots in order, each with the timestamp derived from the packet's
  capture time; every frame that a packet appends to the queue carries that timestamp,
  height 1 and its own point count as width. For slot 0 of five firing blocks at
  positions 100, 200, 350, 50, 120 whose returns are all non-zero, started from the
  initial state, the queue ends with exactly one frame, holding the points of 100, 200
  and 350, and the cloud in progress holds the points of 50 and 120.
\<close>

theorem rotation_complete_before_return:
  assumes "calibrated c"
  shows "(\<exists>st'. process_laser c unixtime interpolated firing_data laser_index st = Inr st' \<and>
     (if slot_azimuth c interpolated firing_data laser_index < last_azimuth st
      then (\<exists>f. queue st' = queue st @ [f] \<and> stamp f = of_int unixtime \<and> height f = 1
                \<and> points f = points (cloud st)
                \<and> width f = of_nat (length (points (cloud st)))
                \<and> (length (points (cloud st)) < 2 ^ 32
                     \<longrightarrow> unat (width f) = length (points (cloud st))))
           \<and> points (cloud st') =
               (if distance (laserReturns firing_data
                     (nat (c_rem (int laser_index) (MAX_NUM_LASERS c)))) = 0 then []
                else [reconstruct_point c (nat (c_rem (int laser_index) (MAX_NUM_LASERS c)))
                        (laserReturns firing_data
                           (nat (c_rem (int laser_index) (MAX_NUM_LASERS c))))
                        (slot_azimuth c interpolated firing_data laser_index)])
      else queue st' = queue st))
   \<and> (len hdr - 42 = 1206 \<and> unixtime_of (tv_sec hdr) (tv_usec hdr) = Inr t
        \<and> (ndebug \<or> sensorType packet = 0x21 \<or> sensorType packet = 0x22) \<longrightarrow>
       process_packet c ndebug hdr packet st =
         for_each (\<lambda>firing_index.
             for_each (process_laser c t (interpolated_azimuth packet)
                         (firingData packet firing_index)) [0..<32]) [0..<12] st)
   \<and> (process_packet c ndebug hdr packet st = Inr st' \<longrightarrow>
       (\<exists>fs. queue st' = queue st @ fs \<and>
          (\<forall>f \<in> set fs. (\<exists>t. unixtime_of (tv_sec hdr) (tv_usec hdr) = Inr t
                                \<and> stamp f = of_int t)
                          \<and> height f = 1 \<and> width f = of_nat (length (points f)))))
   \<and> (rotationalPosition fd1 = 100 \<and> rotationalPosition fd2 = 200
        \<and> rotationalPosition fd3 = 350 \<and> rotationalPosition fd4 = 50
        \<and> rotationalPosition fd5 = 120
        \<and> distance (laserReturns fd1 0) \<noteq> 0 \<and> distance (laserReturns fd2 0) \<noteq> 0
        \<and> distance (laserReturns fd3 0) \<noteq> 0 \<and> distance (laserReturns fd4 0) \<noteq> 0
        \<and> distance (laserReturns fd5 0) \<noteq> 0 \<longrightarrow>
       for_each (\<lambda>firing_data. process_laser c unixtime interpolated firing_data 0)
         [fd1, fd2, fd3, fd4, fd5]
         \<lparr>last_azimuth = 0, cloud = new_PointCloudT, queue = []\<rparr>
       = Inr \<lparr>last_azimuth = 120,
              cloud = new_PointCloudT\<lparr>points :=
                 [reconstruct_point c 0 (laserReturns fd4 0) 50,
                  reconstruct_point c 0 (laserReturns fd5 0) 120]\<rparr>,
              queue = [\<lparr>stamp = of_int unixtime, width = 3, height = 1,
                        points = [reconstruct_point c 0 (laserReturns fd1 0) 100,
                                  reconstruct_point c 0 (laserReturns fd2 0) 200,
                                  reconstruct_point c 0 (laserReturns fd3 0) 350]\<rparr>]\<rparr>)"
proof (intro conjI impI)
  show "\<exists>st'. process_laser c unixtime interpolated firing_data laser_index st = Inr st' \<and>
     (if slot_azimuth c interpolated firing_data laser_index < last_azimuth st
      then (\<exists>f. queue st' = queue st @ [f] \<and> stamp f = of_int unixtime \<and> height f = 1
                \<and> points f = points (cloud st)
                \<and> width f = of_nat (length (points (cloud st)))
                \<and> (length (points (cloud st)) < 2 ^ 32
                     \<longrightarrow> unat (width f) = length (points (cloud st))))
           \<and> points (cloud st') =
               (if distance (laserReturns firing_data
                     (nat (c_rem (int laser_index) (MAX_NUM_LASERS c)))) = 0 then []
                else [reconstruct_point c (nat (c_rem (int laser_index) (MAX_NUM_LASERS c)))
                        (laserReturns firing_data
                           (nat (c_rem (int laser_index) (MAX_NUM_LASERS c))))
                        (slot_azimuth c interpolated firing_data laser_index)])
      else queue st' = queue st)"
    by (simp add: process_laser_calibrated [OF assms] Let_def rotation_test_def push_rotation_def
        new_PointCloudT_def unat_of_nat)
next
  assume "len hdr - 42 = 1206 \<and> unixtime_of (tv_sec hdr) (tv_usec hdr) = Inr t
        \<and> (ndebug \<or> sensorType packet = 0x21 \<or> sensorType packet = 0x22)"
  then show "process_packet c ndebug hdr packet st =
         for_each (\<lambda>firing_index.
             for_each (process_laser c t (interpolated_azimuth packet)
                         (firingData packet firing_index)) [0..<32]) [0..<12] st"
    by (auto simp add: process_packet_def process_firings_def process_firing_def [abs_def]
        LASER_PER_FIRING_def FIRING_PER_PKT_def)
next
  assume p: "process_packet c ndebug hdr packet st = Inr st'"
  show "\<exists>fs. queue st' = queue st @ fs \<and>
          (\<forall>f \<in> set fs. (\<exists>t. unixtime_of (tv_sec hdr) (tv_usec hdr) = Inr t
                                \<and> stamp f = of_int t)
                          \<and> height f = 1 \<and> width f = of_nat (length (points f)))"
  proof (cases "len hdr - 42 \<noteq> 1206")
    case True
    with p have "st' = st" by (simp add: process_packet_def)
    then show ?thesis by simp
  next
    case False
    with p obtain t where t: "unixtime_of (tv_sec hdr) (tv_usec hdr) = Inr t"
      and f: "process_firings c t packet st = Inr st'"
      by (auto simp add: process_packet_def split: sum.splits if_splits)
    from f have "pushed_with t (queue st) st'" by (rule process_firings_pushed_with)
    with t show ?thesis unfolding pushed_with_def by blast
  qed
next
  assume a: "rotationalPosition fd1 = 100 \<and> rotationalPosition fd2 = 200
        \<and> rotationalPosition fd3 = 350 \<and> rotationalPosition fd4 = 50
        \<and> rotationalPosition fd5 = 120
        \<and> distance (laserReturns fd1 0) \<noteq> 0 \<and> distance (laserReturns fd2 0) \<noteq> 0
        \<and> distance (laserReturns fd3 0) \<noteq> 0 \<and> distance (laserReturns fd4 0) \<noteq> 0
        \<and> distance (laserReturns fd5 0) \<noteq> 0"
  from assms have "0 < MAX_NUM_LASERS c" by (simp add: calibrated_def)
  then have az: "\<not> MAX_NUM_LASERS c \<le> 0" by simp
  from a show "for_each (\<lambda>firing_data. process_laser c unixtime interpolated firing_data 0)
         [fd1, fd2, fd3, fd4, fd5]
         \<lparr>last_azimuth = 0, cloud = new_PointCloudT, queue = []\<rparr>
       = Inr \<lparr>last_azimuth = 120,
              cloud = new_PointCloudT\<lparr>points :=
                 [reconstruct_point c 0 (laserReturns fd4 0) 50,
                  reconstruct_point c 0 (laserReturns fd5 0) 120]\<rparr>,
              queue = [\<lparr>stamp = of_int unixtime, width = 3, height = 1,
                        points = [reconstruct_point c 0 (laserReturns fd1 0) 100,
                                  reconstruct_point c 0 (laserReturns fd2 0) 200,
                                  reconstruct_point c 0 (laserReturns fd3 0) 350]\<rparr>]\<rparr>"
    by (simp add: process_laser_calibrated [OF assms] Let_def az c_rem_def slot_azimuth_def
        rotation_test_def push_rotation_def new_PointCloudT_def)
qed

theorem rotation_complete_before_return_witness:
  "calibrated (VLP16Capture 0)
   \<and> len (header (input_of wrap_packet)) - 42 = 1206
   \<and> unixtime_of (tv_sec (header (input_of wrap_packet)))
        (tv_usec (header (input_of wrap_packet))) = Inr 10420000
   \<and> sensorType wrap_packet = 0x22
   \<and> for_each (\<lambda>firing_index.
         for_each (process_laser (VLP16Capture 0) 10420000 (interpolated_azimuth wrap_packet)
                     (firingData wrap_packet firing_index)) [0..<32]) [0..<12]
         \<lparr>last_azimuth = 0, cloud = new_PointCloudT, queue = []\<rparr>
       = Inr \<lparr>last_azimuth = 0,
              cloud = new_PointCloudT\<lparr>points :=
                 [reconstruct_point (VLP16Capture 0) 0 \<lparr>distance = 1, intensity = 0\<rparr> 0]\<rparr>,
              queue = [\<lparr>stamp = 10420000, width = 1, height = 1, points =
                 [reconstruct_point (VLP16Capture 0) 0 \<lparr>distance = 1, intensity = 0\<rparr> 35900]\<rparr>]\<rparr>
   \<and> slot_azimuth (VLP16Capture 0) 100 (single_return_firing 35900 0) 16
       < last_azimuth \<lparr>last_azimuth = 35900,
            cloud = new_PointCloudT\<lparr>points :=
               [reconstruct_point (VLP16Capture 0) 0 \<lparr>distance = 1, intensity = 0\<rparr> 35900]\<rparr>,
            queue = []\<rparr>
   \<and> (\<exists>st'. process_laser (VLP16Capture 0) 10420000 100 (single_return_firing 35900 0) 16
              \<lparr>last_azimuth = 35900,
               cloud = new_PointCloudT\<lparr>points :=
                 [reconstruct_point (VLP16Capture 0) 0 \<lparr>distance = 1, intensity = 0\<rparr> 35900]\<rparr>,
               queue = []\<rparr> = Inr st'
          \<and> (\<exists>f. queue st' = [f] \<and> stamp f = 10420000 \<and> unat (width f) = 1
                  \<and> points f =
                      [reconstruct_point (VLP16Capture 0) 0 \<lparr>distance = 1, intensity = 0\<rparr> 35900])
          \<and> points (cloud st') =
               [reconstruct_point (VLP16Capture 0) 0 \<lparr>distance = 1, intensity = 0\<rparr> 0])
   \<and> for_each (\<lambda>firing_data. process_laser (VLP16Capture 0) 7 0 firing_data 0)
         [sample_firing 100 1, sample_firing 200 1, sample_firing 350 1, sample_firing 50 1,
          sample_firing 120 1]
         \<lparr>last_azimuth = 0, cloud = new_PointCloudT, queue = []\<rparr>
       = Inr \<lparr>last_azimuth = 120,
              cloud = new_PointCloudT\<lparr>points :=
                 [reconstruct_point (VLP16Capture 0) 0 \<lparr>distance = 1, intensity = 0\<rparr> 50,
                  reconstruct_point (VLP16Capture 0) 0 \<lparr>distance = 1, intensity = 0\<rparr> 120]\<rparr>,
              queue = [\<lparr>stamp = 7, width = 3, height = 1,
                        points =
                          [reconstruct_point (VLP16Capture 0) 0 \<lparr>distance = 1, intensity = 0\<rparr> 100,
                           reconstruct_point (VLP16Capture 0) 0 \<lparr>distance = 1, intensity = 0\<rparr> 200,
                           reconstruct_point (VLP16Capture 0) 0 \<lparr>distance = 1, intensity = 0\<rparr> 350]\<rparr>]\<rparr>"
proof -
  let ?p = "\<lambda>a. reconstruct_point (VLP16Capture 0) 0 \<lparr>distance = 1, intensity = 0\<rparr> a"
  let ?s1 = "\<lparr>last_azimuth = 35900, cloud = new_PointCloudT\<lparr>points := [?p 35900]\<rparr>,
              queue = []\<rparr>"
  have h: "len (header (input_of wrap_packet)) - 42 = 1206"
    "unixtime_of (tv_sec (header (input_of wrap_packet)))
        (tv_usec (header (input_of wrap_packet))) = Inr 10420000"
    "sensorType wrap_packet = 0x22"
    by (simp_all add: unixtime_10_42)
  from rotation_complete_before_return [OF calibrated_VLP16 [of 0],
      where hdr = "header (input_of wrap_packet)" and t = 10420000 and ndebug = False
      and packet = wrap_packet and st = "\<lparr>last_azimuth = 0, cloud = new_PointCloudT, queue = []\<rparr>",
      THEN conjunct2, THEN conjunct1]
    h wrap_packet_processed
  have packet: "for_each (\<lambda>firing_index.
         for_each (process_laser (VLP16Capture 0) 10420000 (interpolated_azimuth wrap_packet)
                     (firingData wrap_packet firing_index)) [0..<32]) [0..<12]
         \<lparr>last_azimuth = 0, cloud = new_PointCloudT, queue = []\<rparr>
       = Inr \<lparr>last_azimuth = 0, cloud = new_PointCloudT\<lparr>points := [?p 0]\<rparr>,
              queue = [\<lparr>stamp = 10420000, width = 1, height = 1, points = [?p 35900]\<rparr>]\<rparr>"
    by simp
  have lt: "slot_azimuth (VLP16Capture 0) 100 (single_return_firing 35900 0) 16 < last_azimuth ?s1"
    by (simp add: slot_azimuth_def single_return_firing_def MAX_NUM_LASERS_VLP16)
  have az: "slot_azimuth (VLP16Capture 0) 100 (single_return_firing 35900 0) 16 = 0"
    by (simp add: slot_azimuth_def single_return_firing_def MAX_NUM_LASERS_VLP16)
  have lr: "laserReturns (single_return_firing 35900 0) 0 = \<lparr>distance = 1, intensity = 0\<rparr>"
    by (simp add: single_return_firing_def)
  from rotation_complete_before_return [OF calibrated_VLP16 [of 0],
      where unixtime = 10420000 and interpolated = 100
      and firing_data = "single_return_firing 35900 0" and laser_index = 16 and st = ?s1,
      THEN conjunct1] lt
  have slot: "\<exists>st'. process_laser (VLP16Capture 0) 10420000 100 (single_return_firing 35900 0) 16
              ?s1 = Inr st'
          \<and> (\<exists>f. queue st' = [f] \<and> stamp f = 10420000 \<and> unat (width f) = 1
                  \<and> points f = [?p 35900])
          \<and> points (cloud st') = [?p 0]"
    by (auto simp add: az MAX_NUM_LASERS_VLP16 c_rem_def lr new_PointCloudT_def)
  from rotation_complete_before_return [OF calibrated_VLP16 [of 0],
      where unixtime = 7 and interpolated = 0
      and ?fd1.0 = "sample_firing 100 1" and ?fd2.0 = "sample_firing 200 1"
      and ?fd3.0 = "sample_firing 350 1" and ?fd4.0 = "sample_firing 50 1"
      and ?fd5.0 = "sample_firing 120 1",
      THEN conjunct2, THEN conjunct2, THEN conjunct2]
  have seq: "for_each (\<lambda>firing_data. process_laser (VLP16Capture 0) 7 0 firing_data 0)
         [sample_firing 100 1, sample_firing 200 1, sample_firing 350 1, sample_firing 50 1,
          sample_firing 120 1]
         \<lparr>last_azimuth = 0, cloud = new_PointCloudT, queue = []\<rparr>
       = Inr \<lparr>last_azimuth = 120, cloud = new_PointCloudT\<lparr>points := [?p 50, ?p 120]\<rparr>,
              queue = [\<lparr>stamp = 7, width = 3, height = 1,
                        points = [?p 100, ?p 200, ?p 350]\<rparr>]\<rparr>"
    by (simp add: sample_firing_def)
  from calibrated_VLP16 [of 0] h packet lt slot seq show ?thesis by blast
qed

subsection \<open>Calibration tables\<close>

text \<open>
  C2. After construction of the 32-channel class the laser count is 32 and the angle
  table has 32 entries, but the cos and sin tables that point reconstruction reads are
  empty; those of the 16-channel class have 16 entries each.
\<close>

theorem HDL32E_cos_sin_tables_empty:
  "MAX_NUM_LASERS (HDL32ECapture n0) = 32 \<and> length (lut (HDL32ECapture n0)) = 32
   \<and> lut_cos (HDL32ECapture n0) = [] \<and> lut_sin (HDL32ECapture n0) = []
   \<and> length (lut_cos (VLP16Capture n0)) = 16 \<and> length (lut_sin (VLP16Capture n0)) = 16"
  by (simp add: HDL32ECapture_def HDL32ECapture_initialize_def VelodyneCapture_ctor_def
      HDL32E_lut_def VLP16Capture_def VLP16Capture_initialize_def VLP16_lut_def)

subsection \<open>Point reconstruction\<close>

text \<open>
  C3. On the 32-channel class a return of raw distance 1, which passes the filter, in
  any slot of a firing block, makes the capture thread index the empty cos table: no
  point is computed from calibration entries.
\<close>

theorem HDL32E_point_reads_empty_table:
  "process_laser (HDL32ECapture n0) unixtime interpolated (sample_firing a 1) laser_index st
     = Inl Vector_index_out_of_range"
  by (simp add: process_laser_def HDL32ECapture_def HDL32ECapture_initialize_def
      VelodyneCapture_ctor_def sample_firing_def EPSILON_def Let_def)

text \<open>
  With tables that cover the laser count, and rounding left aside, the point appended
  for a return that passes the filter is the one of the formula: range twice the raw
  distance, the table entries of channel \<open>laser_index mod MAX_NUM_LASERS\<close>, the azimuth
  in radians; and its image under the matrix when one is set.
\<close>

lemma reconstruct_point_formula:
  "reconstruct_point (c\<lparr>transformMatrixPtr := None\<rparr>) m lr azimuth =
     \<lparr>p_x = (2 * real (unat (distance lr))) * (lut_cos c ! m) * sin (azimuth * pi / 18000),
      p_y = (2 * real (unat (distance lr))) * (lut_cos c ! m) * cos (azimuth * pi / 18000),
      p_z = (2 * real (unat (distance lr))) * (lut_sin c ! m)\<rparr>"
  by (simp add: reconstruct_point_def laser_point_def M_PI_18000_def)

lemma reconstruct_point_transformed:
  "reconstruct_point (c\<lparr>transformMatrixPtr := Some matrix\<rparr>) m lr azimuth =
     transform_point matrix (reconstruct_point (c\<lparr>transformMatrixPtr := None\<rparr>) m lr azimuth)"
  by (simp add: reconstruct_point_def)

subsection \<open>Azimuth interpolation\<close>



subsection \<open>The timestamp\<close>

text \<open>
  C5. Seconds 10 and microseconds 42 give the Unix time 10420000: the microseconds are
  left-adjusted in their field of width 6, so the zeros follow the digits. The value
  claimed for this packet, 10000042, is not what is computed.
\<close>

theorem unixtime_pads_on_the_right:
  "unixtime_of 10 42 = Inr 10420000 \<and> unixtime_of 10 42 \<noteq> Inr 10000042"
  by (simp add: unixtime_eval)

subsection \<open>An unrecognised model byte\<close>

text \<open>
  C6, as claimed, fails: a packet of the right size with model byte \<open>0x20\<close> is not
  skipped. Compiled with assertions, the capture of this one packet ends with the failed
  assertion, where the capture of no packet at all ends normally.
\<close>

theorem unknown_model_byte_not_skipped:
  "capturePCAP (VLP16Capture 0) False [sample_input 100 1 0x20] [] = Inl Assertion_failed
   \<and> capturePCAP (VLP16Capture 0) False [sample_input 100 1 0x20] []
       \<noteq> capturePCAP (VLP16Capture 0) False [] []"
  by (simp add: capturePCAP_def process_packet_def sample_input_def sample_packet_def
      unixtime_eval)

text \<open>
  C6, amended. For a packet of the right size whose model byte is neither \<open>0x21\<close> nor
  \<open>0x22\<close>, compiled with assertions, the capture thread stops at this packet with an
  error (the failed assertion, unless the timestamp conversion has thrown before it):
  no slot of the packet is processed, so it appends no point and pushes no frame, and no
  later packet is processed. Compiled with \<^verbatim>\<open>NDEBUG\<close>, the byte is not looked at and the
  packet is processed as one with byte \<open>0x22\<close> is.
\<close>

theorem unknown_model_byte_aborts:
  assumes "sensorType (payload i) \<noteq> 0x21" and "sensorType (payload i) \<noteq> 0x22"
    and "run i" and "0 < ret i" and "len (header i) - 42 = 1206"
  shows "capture_loop c False (i # is) st =
           (case unixtime_of (tv_sec (header i)) (tv_usec (header i)) of
              Inl e \<Rightarrow> Inl e | Inr unixtime \<Rightarrow> Inl Assertion_failed)
         \<and> process_packet c True (header i) (payload i) st =
             process_packet c True (header i) ((payload i)\<lparr>sensorType := 0x22\<rparr>) st"
  using assms by (simp add: process_packet_def split: sum.splits)

theorem unknown_model_byte_aborts_witness:
  "sensorType (payload (sample_input 100 1 0x20)) \<noteq> 0x21
   \<and> sensorType (payload (sample_input 100 1 0x20)) \<noteq> 0x22
   \<and> run (sample_input 100 1 0x20) \<and> 0 < ret (sample_input 100 1 0x20)
   \<and> len (header (sample_input 100 1 0x20)) - 42 = 1206
   \<and> capture_loop (VLP16Capture 0) False
        [sample_input 100 1 0x20, sample_input 100 1 0x22]
        \<lparr>last_azimuth = 0, cloud = new_PointCloudT, queue = []\<rparr> = Inl Assertion_failed"
proof -
  have h: "sensorType (payload (sample_input 100 1 0x20)) \<noteq> 0x21"
    "sensorType (payload (sample_input 100 1 0x20)) \<noteq> 0x22"
    "run (sample_input 100 1 0x20)" "0 < ret (sample_input 100 1 0x20)"
    "len (header (sample_input 100 1 0x20)) - 42 = 1206"
    by (simp_all add: sample_input_def sample_packet_def)
  have t: "unixtime_of (tv_sec (header (sample_input 100 1 0x20)))
             (tv_usec (header (sample_input 100 1 0x20))) = Inr 10420000"
    by (simp add: sample_input_def unixtime_eval)
  from unknown_model_byte_aborts [OF h, of "VLP16Capture 0" "[sample_input 100 1 0x22]"
      "\<lparr>last_azimuth = 0, cloud = new_PointCloudT, queue = []\<rparr>"]
  have "capture_loop (VLP16Capture 0) False
        [sample_input 100 1 0x20, sample_input 100 1 0x22]
        \<lparr>last_azimuth = 0, cloud = new_PointCloudT, queue = []\<rparr> = Inl Assertion_failed"
    by (simp only: t sum.case)
  with h show ?thesis by blast
qed

subsection \<open>The distance filter\<close>




subsection \<open>The last azimuth\<close>

text \<open>
  C8, as claimed, fails in its last part: a packet with rotational position 65535 in
  block 0 and 0 in block 1, and no echo at all, has the negative interpolated value
  -14767.5; the slots 16 to 31 of block 1, at that negative azimuth, each complete an
  empty frame, although no point was ever appended.
\<close>

theorem first_frame_closes_empty:
  "capturePCAP (VLP16Capture 0) False [input_of overrange_packet] []
     = Inr \<lparr>last_azimuth = 0, cloud = new_PointCloudT,
            queue = replicate 16 \<lparr>stamp = 10420000, width = 0, height = 1, points = []\<rparr>\<rparr>
   \<and> emitted_capture (VLP16Capture 0) [input_of overrange_packet] = []
   \<and> rotationalPosition (firingData overrange_packet 0) = 65535"
proof (intro conjI)
  show "capturePCAP (VLP16Capture 0) False [input_of overrange_packet] []
     = Inr \<lparr>last_azimuth = 0, cloud = new_PointCloudT,
            queue = replicate 16 \<lparr>stamp = 10420000, width = 0, height = 1, points = []\<rparr>\<rparr>"
    by (rule overrange_capture)
  have "distance (laserReturns (firingData overrange_packet f) m) = 0" for f m
    by (simp add: overrange_packet_def sample_firing_def)
  then show "emitted_capture (VLP16Capture 0) [input_of overrange_packet] = []"
    by (simp add: emitted_packet_def emitted_firing_def emitted_slot_def EPSILON_def)
  show "rotationalPosition (firingData overrange_packet 0) = 65535"
    by (simp add: overrange_packet_def sample_firing_def)
qed

text \<open>
  C8, amended. A slot that is processed leaves \<open>last_azimuth\<close> as it was when the
  return it reads has raw distance 0, and sets it to the slot's azimuth when it appends
  a point. Along a whole capture, started with \<open>last_azimuth\<close> 0, \<open>last_azimuth\<close> at
  the end is the azimuth of the last point appended, or 0 when none was. When the
  rotational positions of all packets are below 36000, the first frame pushed since
  the start of the capture holds at least one point: the first frame is not completed
  before a point is appended.
\<close>

theorem last_azimuth_is_last_emitted:
  "(process_laser c unixtime interpolated firing_data laser_index st = Inr st' \<longrightarrow>
      last_azimuth st' =
        (if distance (laserReturns firing_data
               (nat (c_rem (int laser_index) (MAX_NUM_LASERS c)))) = 0
         then last_azimuth st
         else slot_azimuth c interpolated firing_data laser_index))
   \<and> (capturePCAP c ndebug inputs q0 = Inr st'' \<longrightarrow>
        last_azimuth st'' = last (0 # emitted_capture c inputs))
   \<and> (capturePCAP c ndebug inputs q0 = Inr st''
        \<and> (\<forall>i \<in> set inputs. rotational_positions_valid (payload i)) \<longrightarrow>
        (\<exists>fs. queue st'' = q0 @ fs \<and> (\<forall>f gs. fs = f # gs \<longrightarrow> points f \<noteq> [])))"
proof (intro conjI impI)
  assume "process_laser c unixtime interpolated firing_data laser_index st = Inr st'"
  then have "last_azimuth st' =
      last (last_azimuth st # emitted_slot c interpolated firing_data laser_index)"
    by (rule process_laser_last_azimuth)
  then show "last_azimuth st' =
        (if distance (laserReturns firing_data
               (nat (c_rem (int laser_index) (MAX_NUM_LASERS c)))) = 0
         then last_azimuth st
         else slot_azimuth c interpolated firing_data laser_index)"
    by (simp add: emitted_slot_def below_EPSILON)
next
  assume "capturePCAP c ndebug inputs q0 = Inr st''"
  then have "last_azimuth st'' =
      last (last_azimuth \<lparr>last_azimuth = 0, cloud = new_PointCloudT, queue = q0\<rparr>
            # emitted_capture c inputs)"
    unfolding capturePCAP_def by (rule capture_loop_last_azimuth)
  then show "last_azimuth st'' = last (0 # emitted_capture c inputs)" by simp
next
  assume a: "capturePCAP c ndebug inputs q0 = Inr st''
        \<and> (\<forall>i \<in> set inputs. rotational_positions_valid (payload i))"
  then have "capture_loop c ndebug inputs
      \<lparr>last_azimuth = 0, cloud = new_PointCloudT, queue = q0\<rparr> = Inr st''"
    by (simp add: capturePCAP_def)
  with a first_frame_inv_initial [of q0] have "first_frame_inv q0 st''"
    by (blast intro: capture_loop_first_frame)
  then obtain fs where q: "queue st'' = q0 @ fs"
    and fs: "case fs of [] \<Rightarrow> last_azimuth st'' = 0 \<or> points (cloud st'') \<noteq> []
             | f # _ \<Rightarrow> points f \<noteq> []"
    unfolding first_frame_inv_def by blast
  from fs have "\<forall>f gs. fs = f # gs \<longrightarrow> points f \<noteq> []" by (cases fs) simp_all
  with q show "\<exists>fs. queue st'' = q0 @ fs \<and> (\<forall>f gs. fs = f # gs \<longrightarrow> points f \<noteq> [])"
    by blast
qed


theorem last_azimuth_is_last_emitted_witness:
  "rotational_positions_valid (payload (input_of wrap_packet))
   \<and> capturePCAP (VLP16Capture 0) False [input_of wrap_packet] []
       = Inr \<lparr>last_azimuth = 0,
              cloud = new_PointCloudT\<lparr>points :=
                 [reconstruct_point (VLP16Capture 0) 0 \<lparr>distance = 1, intensity = 0\<rparr> 0]\<rparr>,
              queue = [\<lparr>stamp = 10420000, width = 1, height = 1, points =
                 [reconstruct_point (VLP16Capture 0) 0 \<lparr>distance = 1, intensity = 0\<rparr> 35900]\<rparr>]\<rparr>
   \<and> last (0 # emitted_capture (VLP16Capture 0) [input_of wrap_packet]) = 0
   \<and> emitted_capture (VLP16Capture 0) [input_of wrap_packet] = [35900, 0]
   \<and> (\<exists>st' fs. capturePCAP (VLP16Capture 0) False [input_of wrap_packet] [] = Inr st'
         \<and> queue st' = [] @ fs \<and> 0 < length fs
         \<and> (\<forall>f gs. fs = f # gs \<longrightarrow> points f \<noteq> []))
   \<and> (\<exists>st'. process_laser (VLP16Capture 0) 7 0 (sample_firing 100 0) 5
               \<lparr>last_azimuth = 350, cloud = new_PointCloudT, queue = []\<rparr> = Inr st'
         \<and> last_azimuth st' = 350)
   \<and> (\<exists>st'. process_laser (VLP16Capture 0) 7 0 (sample_firing 100 1) 5
               \<lparr>last_azimuth = 350, cloud = new_PointCloudT, queue = []\<rparr> = Inr st'
         \<and> last_azimuth st' = 100)"
proof -
  let ?S = "\<lparr>last_azimuth = 0,
              cloud = new_PointCloudT\<lparr>points :=
                 [reconstruct_point (VLP16Capture 0) 0 \<lparr>distance = 1, intensity = 0\<rparr> 0]\<rparr>,
              queue = [\<lparr>stamp = 10420000, width = 1, height = 1, points =
                 [reconstruct_point (VLP16Capture 0) 0 \<lparr>distance = 1, intensity = 0\<rparr> 35900]\<rparr>]\<rparr>"
  have v: "rotational_positions_valid (payload (input_of wrap_packet))"
    by (simp add: wrap_packet_valid)
  have c: "capturePCAP (VLP16Capture 0) False [input_of wrap_packet] [] = Inr ?S"
    by (rule wrap_capture)
  from c last_azimuth_is_last_emitted [where c = "VLP16Capture 0" and ndebug = False
        and inputs = "[input_of wrap_packet]" and ?q0.0 = "[]" and st'' = ?S,
        THEN conjunct2, THEN conjunct1]
  have l: "last (0 # emitted_capture (VLP16Capture 0) [input_of wrap_packet]) = 0"
    by simp
  from c v last_azimuth_is_last_emitted [where c = "VLP16Capture 0" and ndebug = False
        and inputs = "[input_of wrap_packet]" and ?q0.0 = "[]" and st'' = ?S,
        THEN conjunct2, THEN conjunct2]
  have "\<exists>fs. queue ?S = [] @ fs \<and> (\<forall>f gs. fs = f # gs \<longrightarrow> points f \<noteq> [])"
    by simp
  then obtain fs where fs: "queue ?S = [] @ fs"
    and ne: "\<forall>f gs. fs = f # gs \<longrightarrow> points f \<noteq> []" by blast
  from fs have "0 < length fs" by auto
  with c fs ne have ff: "\<exists>st' fs. capturePCAP (VLP16Capture 0) False [input_of wrap_packet] [] = Inr st'
         \<and> queue st' = [] @ fs \<and> 0 < length fs
         \<and> (\<forall>f gs. fs = f # gs \<longrightarrow> points f \<noteq> [])"
    by blast
  have fd: "firingData wrap_packet f =
      (if f = 0 then single_return_firing 35900 0 else sample_firing 100 0)" for f
    by (simp add: wrap_packet_def)
  have q: "emitted_firing (VLP16Capture 0) 100 (sample_firing 100 0) = []"
    by (simp add: emitted_firing_def emitted_slot_def sample_firing_def EPSILON_def)
  have b0: "emitted_firing (VLP16Capture 0) 100 (single_return_firing 35900 0) = [35900, 0]"
    by (simp add: emitted_firing_def emitted_slot_def LASER_PER_FIRING_def upt32 MAX_NUM_LASERS_VLP16 c_rem_def
        slot_azimuth_def single_return_firing_def EPSILON_def)
  have e: "emitted_capture (VLP16Capture 0) [input_of wrap_packet] = [35900, 0]"
    by (simp add: emitted_packet_def FIRING_PER_PKT_def upt12 wrap_packet_interpolated fd q b0)
  have az: "slot_azimuth (VLP16Capture 0) 0 (sample_firing 100 d) 5 = 100" for d
    by (simp add: slot_azimuth_def sample_firing_def Let_def)
  have d: "distance (laserReturns (sample_firing 100 d) j) = d" for d j
    by (simp add: sample_firing_def)
  obtain s0 where s0: "process_laser (VLP16Capture 0) 7 0 (sample_firing 100 0) 5
               \<lparr>last_azimuth = 350, cloud = new_PointCloudT, queue = []\<rparr> = Inr s0"
    by (simp add: process_laser_calibrated [OF calibrated_VLP16])
  obtain s1 where s1: "process_laser (VLP16Capture 0) 7 0 (sample_firing 100 1) 5
               \<lparr>last_azimuth = 350, cloud = new_PointCloudT, queue = []\<rparr> = Inr s1"
    by (simp add: process_laser_calibrated [OF calibrated_VLP16])
  from s0 last_azimuth_is_last_emitted [where c = "VLP16Capture 0" and unixtime = 7
      and interpolated = 0 and firing_data = "sample_firing 100 0" and laser_index = 5
      and st = "\<lparr>last_azimuth = 350, cloud = new_PointCloudT, queue = []\<rparr>" and st' = s0]
  have "last_azimuth s0 = 350" by (simp add: d)
  moreover
  from s1 last_azimuth_is_last_emitted [where c = "VLP16Capture 0" and unixtime = 7
      and interpolated = 0 and firing_data = "sample_firing 100 1" and laser_index = 5
      and st = "\<lparr>last_azimuth = 350, cloud = new_PointCloudT, queue = []\<rparr>" and st' = s1]
  have "last_azimuth s1 = 100" by (simp add: d az)
  ultimately show ?thesis using v c l e ff s0 s1 by blast
qed

subsection \<open>Packets of the wrong size\<close>

text \<open>
  C9. A packet whose length less 42 (in 32-bit unsigned arithmetic) is not 1206, which
  is to say whose length is not 1248, leaves the state as it is, whatever its payload;
  the loop then goes on with the rest of the input. It is never an error.
\<close>

theorem wrong_size_packet_skipped:
  "(len hdr - 42 \<noteq> 1206 \<longrightarrow>
      process_packet c ndebug hdr packet st = Inr st
      \<and> process_packet c ndebug hdr packet st = process_packet c ndebug hdr packet' st)
   \<and> (len (header i) - 42 \<noteq> 1206 \<and> run i \<and> 0 < ret i \<longrightarrow>
        capture_loop c ndebug (i # is) st = capture_loop c ndebug is st)
   \<and> ((len hdr - 42 \<noteq> 1206) = (len hdr \<noteq> 1248))"
  by (auto simp add: process_packet_def)

theorem wrong_size_packet_skipped_witness:
  "len (header (sample_input 100 1 0x22)\<lparr>len := 60\<rparr>) - 42 \<noteq> 1206
   \<and> run ((sample_input 100 1 0x22)\<lparr>header := (header (sample_input 100 1 0x22))\<lparr>len := 60\<rparr>\<rparr>)
   \<and> 0 < ret ((sample_input 100 1 0x22)\<lparr>header := (header (sample_input 100 1 0x22))\<lparr>len := 60\<rparr>\<rparr>)
   \<and> process_packet (VLP16Capture 0) False ((header (sample_input 100 1 0x22))\<lparr>len := 60\<rparr>)
        (sample_packet 100 1 0x22) \<lparr>last_azimuth = 0, cloud = new_PointCloudT, queue = []\<rparr>
      = Inr \<lparr>last_azimuth = 0, cloud = new_PointCloudT, queue = []\<rparr>
   \<and> capture_loop (VLP16Capture 0) False
        [(sample_input 100 1 0x22)\<lparr>header := (header (sample_input 100 1 0x22))\<lparr>len := 60\<rparr>\<rparr>]
        \<lparr>last_azimuth = 0, cloud = new_PointCloudT, queue = []\<rparr>
      = Inr \<lparr>last_azimuth = 0, cloud = new_PointCloudT, queue = []\<rparr>"
proof -
  have h: "len (header (sample_input 100 1 0x22)\<lparr>len := 60\<rparr>) - 42 \<noteq> 1206"
    and r: "run ((sample_input 100 1 0x22)\<lparr>header := (header (sample_input 100 1 0x22))\<lparr>len := 60\<rparr>\<rparr>)"
    and p: "0 < ret ((sample_input 100 1 0x22)\<lparr>header := (header (sample_input 100 1 0x22))\<lparr>len := 60\<rparr>\<rparr>)"
    by (simp_all add: sample_input_def)
  show ?thesis
    using h r p
      wrong_size_packet_skipped [of "(header (sample_input 100 1 0x22))\<lparr>len := 60\<rparr>"
        "VLP16Capture 0" False "sample_packet 100 1 0x22"
        "\<lparr>last_azimuth = 0, cloud = new_PointCloudT, queue = []\<rparr>" "sample_packet 100 1 0x22"
        "(sample_input 100 1 0x22)\<lparr>header := (header (sample_input 100 1 0x22))\<lparr>len := 60\<rparr>\<rparr>"
        "[]"]
    by simp
qed

subsection \<open>The non-blocking retrieve\<close>

text \<open>
  C10. When the mutex is held by another thread, or it is free and the queue is empty,
  \<open>retrieve\<close> leaves both the queue and its argument as they were. When the mutex is
  free and the queue is not empty, the argument becomes the front of the queue and the
  queue loses it. The front is the oldest frame: a frame completed by the capture thread
  goes to the back, behind the ones still queued.
\<close>

theorem retrieve_keeps_argument_without_frame:
  "(locked \<or> q = [] \<longrightarrow> retrieve locked q cloud_arg = (q, cloud_arg))
   \<and> (\<not> locked \<longrightarrow> retrieve locked (front # rest) cloud_arg = (rest, Some front))
   \<and> (\<not> locked \<and> queue st = front # rest \<longrightarrow>
        retrieve locked (queue (push_rotation unixtime st)) cloud_arg
          = (rest @ [(cloud st)\<lparr>stamp := of_int unixtime,
                                 width := of_nat (length (points (cloud st))),
                                 height := 1\<rparr>], Some front))"
  by (auto simp add: retrieve_def push_rotation_def)

theorem retrieve_keeps_argument_without_frame_witness:
  "retrieve True [new_PointCloudT] None = ([new_PointCloudT], None)
   \<and> retrieve False [] (Some new_PointCloudT) = ([], Some new_PointCloudT)
   \<and> retrieve False [new_PointCloudT\<lparr>stamp := 1\<rparr>, new_PointCloudT\<lparr>stamp := 2\<rparr>] None
       = ([new_PointCloudT\<lparr>stamp := 2\<rparr>], Some (new_PointCloudT\<lparr>stamp := 1\<rparr>))
   \<and> queue \<lparr>last_azimuth = 0, cloud = new_PointCloudT, queue = [new_PointCloudT\<lparr>stamp := 1\<rparr>]\<rparr>
       = [new_PointCloudT\<lparr>stamp := 1\<rparr>]
   \<and> retrieve False
        (queue (push_rotation 2
           \<lparr>last_azimuth = 0, cloud = new_PointCloudT, queue = [new_PointCloudT\<lparr>stamp := 1\<rparr>]\<rparr>))
        None
       = ([new_PointCloudT\<lparr>stamp := 2, width := 0, height := 1\<rparr>],
          Some (new_PointCloudT\<lparr>stamp := 1\<rparr>))"
  using
    retrieve_keeps_argument_without_frame [of True "[new_PointCloudT]" None]
    retrieve_keeps_argument_without_frame [of False "[]" "Some new_PointCloudT"]
    retrieve_keeps_argument_without_frame [of False "[]" None
      "new_PointCloudT\<lparr>stamp := 1\<rparr>" "[new_PointCloudT\<lparr>stamp := 2\<rparr>]"]
    retrieve_keeps_argument_without_frame [of False "[]" None
      "new_PointCloudT\<lparr>stamp := 1\<rparr>" "[]"
      "\<lparr>last_azimuth = 0, cloud = new_PointCloudT, queue = [new_PointCloudT\<lparr>stamp := 1\<rparr>]\<rparr>" 2]
  by (simp add: new_PointCloudT_def)

end
